theory Spec2Isabelle
  imports Main
begin

section \<open>Values of the event payloads\<close>

text \<open>
  The three Lambda handlers receive an EventBridge event whose \<^verbatim>\<open>detail\<close> has the
  TypeScript type \<^verbatim>\<open>unknown\<close>; the \<^verbatim>\<open>as\<close> assertions of the source check nothing at
  run time. A payload is therefore a parsed JSON document. JSON numbers are left out: no
  handler reads a numeric field. A JavaScript value that may be \<^verbatim>\<open>undefined\<close> is a
  \<open>json option\<close>, with \<open>None\<close> for \<^verbatim>\<open>undefined\<close>. The own properties of an object are
  an association list; the first binding of a name is the property.
\<close>

datatype json =
    JNull
  | JBool bool
  | JStr string
  | JArr "json list"
  | JObj "(string \<times> json) list"

datatype exn =
    TypeError
  | ServiceException
  | ConditionalCheckFailedException

text \<open>JavaScript truthiness: \<^verbatim>\<open>undefined\<close>, \<^verbatim>\<open>null\<close>, \<^verbatim>\<open>false\<close> and \<^verbatim>\<open>''\<close> are falsy.\<close>

fun truthy :: "json option \<Rightarrow> bool" where
  "truthy None = False"
| "truthy (Some JNull) = False"
| "truthy (Some (JBool b)) = b"
| "truthy (Some (JStr s)) = (s \<noteq> [])"
| "truthy (Some (JArr xs)) = True"
| "truthy (Some (JObj ps)) = True"

text \<open>\<^verbatim>\<open>a || b\<close>, with \<open>b\<close> possibly undefined, and with a default that is defined.\<close>

definition or_js :: "json option \<Rightarrow> json option \<Rightarrow> json option" where
  "or_js a b = (if truthy a then a else b)"

definition or_default :: "json option \<Rightarrow> json \<Rightarrow> json" where
  "or_default a d = (case a of None \<Rightarrow> d | Some v \<Rightarrow> if truthy (Some v) then v else d)"

text \<open>
  \<^verbatim>\<open>v.k\<close> and \<^verbatim>\<open>v['k']\<close>: a TypeError on \<^verbatim>\<open>undefined\<close> and \<^verbatim>\<open>null\<close>, the own property
  of an object, and \<^verbatim>\<open>undefined\<close> on a string, a boolean or an array (none of the
  names the handlers read is a property of their prototypes).
\<close>

fun member :: "json option \<Rightarrow> string \<Rightarrow> exn + json option" where
  "member None k = Inl TypeError"
| "member (Some JNull) k = Inl TypeError"
| "member (Some (JObj ps)) k = Inr (map_of ps k)"
| "member (Some (JBool b)) k = Inr None"
| "member (Some (JStr s)) k = Inr None"
| "member (Some (JArr xs)) k = Inr None"

text \<open>\<^verbatim>\<open>v?.k\<close>: \<^verbatim>\<open>undefined\<close> when \<open>v\<close> is \<^verbatim>\<open>undefined\<close> or \<^verbatim>\<open>null\<close>.\<close>

definition opt_member :: "json option \<Rightarrow> string \<Rightarrow> exn + json option" where
  "opt_member v k = (if v = None \<or> v = Some JNull then Inr None else member v k)"

text \<open>
  \<^verbatim>\<open>xs.find(t => t.key === k)\<close>: the first element whose \<^verbatim>\<open>key\<close> is the string \<open>k\<close>.
  Reading \<^verbatim>\<open>t.key\<close> of a \<^verbatim>\<open>null\<close> element throws; a value that is not an array has no
  callable \<^verbatim>\<open>find\<close>, so the call throws.
\<close>

fun find_key :: "string \<Rightarrow> json list \<Rightarrow> exn + json option" where
  "find_key k [] = Inr None"
| "find_key k (t # ts) =
     (case member (Some t) ''key'' of
        Inl e \<Rightarrow> Inl e
      | Inr v \<Rightarrow> if v = Some (JStr k) then Inr (Some t) else find_key k ts)"

fun array_find_key :: "json \<Rightarrow> string \<Rightarrow> exn + json option" where
  "array_find_key (JArr ts) k = find_key k ts"
| "array_find_key v k = Inl TypeError"

text \<open>\<^verbatim>\<open>xs.find(t => t.key === k)?.value\<close>\<close>

definition find_value :: "json \<Rightarrow> string \<Rightarrow> exn + json option" where
  "find_value xs k =
     (case array_find_key xs k of Inl e \<Rightarrow> Inl e | Inr t \<Rightarrow> opt_member t ''value'')"

text \<open>\<^verbatim>\<open>s.split(':')\<close> on a string: never empty, one more part than separators.\<close>

fun split :: "char \<Rightarrow> string \<Rightarrow> string list" where
  "split c [] = [[]]"
| "split c (x # xs) =
     (if x = c then [] # split c xs
      else (case split c xs of [] \<Rightarrow> [[x]] | p # ps \<Rightarrow> (x # p) # ps))"

text \<open>
  The string a template literal \<^verbatim>\<open>${v}\<close> inserts (JavaScript's ToString): a string as it
  is; an array as its elements joined by commas, \<^verbatim>\<open>null\<close> elements as the empty string;
  an object as \<^verbatim>\<open>[object Object]\<close>, unless it has an own property \<^verbatim>\<open>toString\<close>. A
  parsed document holds no function, so that property is not callable, the inherited
  \<^verbatim>\<open>valueOf\<close> returns the object itself (or an own \<^verbatim>\<open>valueOf\<close> is not callable either),
  and the conversion throws a TypeError; so does the conversion of an array that holds
  such an object.
\<close>

fun toString :: "json \<Rightarrow> exn + string"
  and join_elements :: "json list \<Rightarrow> exn + string" where
  "toString JNull = Inr ''null''"
| "toString (JBool b) = Inr (if b then ''true'' else ''false'')"
| "toString (JStr s) = Inr s"
| "toString (JArr xs) = join_elements xs"
| "toString (JObj ps) =
     (if map_of ps ''toString'' = None then Inr ''[object Object]'' else Inl TypeError)"
| "join_elements [] = Inr []"
| "join_elements (x # xs) =
     (case (if x = JNull then Inr [] else toString x) of
        Inl e \<Rightarrow> Inl e
      | Inr s \<Rightarrow>
          (case xs of
             [] \<Rightarrow> Inr s
           | y # ys \<Rightarrow>
               (case join_elements xs of Inl e \<Rightarrow> Inl e | Inr t \<Rightarrow> Inr (s @ '','' @ t))))"

text \<open>The string a template literal inserts for a value that may be \<^verbatim>\<open>undefined\<close>.\<close>

definition template :: "json option \<Rightarrow> exn + string" where
  "template v = (case v of None \<Rightarrow> Inr ''undefined'' | Some x \<Rightarrow> toString x)"

text \<open>
  The conversions of a template literal whose text the model does not keep (the message
  of a console call): each inserted value in turn, the first failure thrown.
\<close>

fun interpolate :: "json option list \<Rightarrow> exn + unit" where
  "interpolate [] = Inr ()"
| "interpolate (v # vs) = (case template v of Inl e \<Rightarrow> Inl e | Inr s \<Rightarrow> interpolate vs)"

section \<open>The link table\<close>

text \<open>
  One item of the DynamoDB table: the string keys \<open>PK\<close> and \<open>SK\<close> and the six attributes
  the code writes; \<open>None\<close> is an attribute the item does not have. The table is the list
  of its items; DynamoDB holds at most one item per key.
\<close>

record item =
  PK :: string
  SK :: string
  AwsAccountStatus :: "json option"
  AwsAccountId :: "json option"
  AwsAccountName :: "json option"
  PageSuiteRoleStatus :: "json option"
  PageSuiteRoleArn :: "json option"
  LastModified :: "json option"

definition new_item :: "string \<Rightarrow> string \<Rightarrow> item" where
  "new_item pk sk =
     \<lparr>PK = pk, SK = sk, AwsAccountStatus = None, AwsAccountId = None, AwsAccountName = None,
      PageSuiteRoleStatus = None, PageSuiteRoleArn = None, LastModified = None\<rparr>"

text \<open>One assignment \<^verbatim>\<open>name = :value\<close> of an UpdateExpression's \<^verbatim>\<open>SET\<close> clause.\<close>

definition set_attribute :: "string \<times> json \<Rightarrow> item \<Rightarrow> item" where
  "set_attribute a i =
     (if fst a = ''AwsAccountStatus'' then i\<lparr>AwsAccountStatus := Some (snd a)\<rparr>
      else if fst a = ''AwsAccountId'' then i\<lparr>AwsAccountId := Some (snd a)\<rparr>
      else if fst a = ''AwsAccountName'' then i\<lparr>AwsAccountName := Some (snd a)\<rparr>
      else if fst a = ''PageSuiteRoleStatus'' then i\<lparr>PageSuiteRoleStatus := Some (snd a)\<rparr>
      else if fst a = ''PageSuiteRoleArn'' then i\<lparr>PageSuiteRoleArn := Some (snd a)\<rparr>
      else if fst a = ''LastModified'' then i\<lparr>LastModified := Some (snd a)\<rparr>
      else i)"

fun set_attributes :: "(string \<times> json) list \<Rightarrow> item \<Rightarrow> item" where
  "set_attributes [] i = i"
| "set_attributes (a # as) i = set_attributes as (set_attribute a i)"

text \<open>
  UpdateItem: the item under the key gets the assignments; when the table has no item
  under the key, DynamoDB creates one holding the key and the assigned attributes.
\<close>

fun update_item :: "string \<Rightarrow> string \<Rightarrow> (string \<times> json) list \<Rightarrow> item list \<Rightarrow> item list" where
  "update_item pk sk sets [] = [set_attributes sets (new_item pk sk)]"
| "update_item pk sk sets (i # is) =
     (if PK i = pk \<and> SK i = sk then set_attributes sets i # is
      else i # update_item pk sk sets is)"

definition get_item :: "string \<Rightarrow> string \<Rightarrow> item list \<Rightarrow> item option" where
  "get_item pk sk tbl = find (\<lambda>i. PK i = pk \<and> SK i = sk) tbl"

text \<open>
  The commands the code sends to the table. A ScanCommand carries the value of
  \<^verbatim>\<open>:accountName\<close> in its filter \<^verbatim>\<open>AwsAccountName = :accountName\<close>; an UpdateCommand
  the key and the \<^verbatim>\<open>SET\<close> assignments; the PutCommand of the creation script the item,
  under the condition \<^verbatim>\<open>attribute_not_exists(PK) AND attribute_not_exists(SK)\<close>.
\<close>

datatype command =
    ScanCommand json
  | UpdateCommand string string "(string \<times> json) list"
  | PutCommand item

datatype response =
    ScanOutput "item list"
  | UpdateOutput
  | PutOutput

text \<open>
  \<^verbatim>\<open>results.Items\<close>. The SDK types it as optional; a Scan that succeeds returns the list,
  so the branch \<^verbatim>\<open>!results.Items\<close> of the handlers is the empty list here.
\<close>

fun Items :: "response \<Rightarrow> item list" where
  "Items (ScanOutput is) = is"
| "Items UpdateOutput = []"
| "Items PutOutput = []"

text \<open>What a run does to the outside, in order: console output and SDK calls.\<close>

datatype effect =
    ConsoleLog string
  | ConsoleError string
  | OrganizationsSend string
  | DynamoSend command
  | ServiceCatalogSend string

record world =
  table :: "item list"
  trace :: "effect list"

text \<open>The response of Organizations' DescribeAccount: \<^verbatim>\<open>{ Account?: { Name?: string } }\<close>.\<close>

record account =
  Name :: "string option"

text \<open>
  What an invocation reads from outside the table: the clock (\<^verbatim>\<open>new Date().toISOString()\<close>),
  the directory (DescribeAccount returns or throws), the commands the table's service
  rejects (throttling, a missing permission, the network), the items of a table that
  the first page of a Scan reads, and the outcome of the Service Catalog artifact lookup
  of the creation script.

  One Scan call reads at most 1 MB of the table, in an order of DynamoDB's own, filters
  what it read, and returns the rest of the table only to further calls that pass
  \<^verbatim>\<open>LastEvaluatedKey\<close> on. Sizes and order are the storage engine's, so which items of a
  table the first page holds is a parameter: \<open>firstPage env tbl i\<close>.
\<close>

record env =
  now :: string
  describeAccount :: "string \<Rightarrow> exn + account option"
  rejects :: "command \<Rightarrow> bool"
  firstPage :: "item list \<Rightarrow> item \<Rightarrow> bool"
  latestActiveArtifactId :: "exn + string"

definition console_log :: "string \<Rightarrow> world \<Rightarrow> world" where
  "console_log m w = w\<lparr>trace := trace w @ [ConsoleLog m]\<rparr>"

definition console_error :: "string \<Rightarrow> world \<Rightarrow> world" where
  "console_error m w = w\<lparr>trace := trace w @ [ConsoleError m]\<rparr>"

text \<open>\<^verbatim>\<open>orgClient.send(new DescribeAccountCommand({ AccountId: accountId }))\<close>\<close>

definition org_send :: "env \<Rightarrow> string \<Rightarrow> world \<Rightarrow> (exn + account option) \<times> world" where
  "org_send env accountId w =
     (describeAccount env accountId, w\<lparr>trace := trace w @ [OrganizationsSend accountId]\<rparr>)"

text \<open>
  \<^verbatim>\<open>dynamoDbDocClient.send(cmd)\<close>. The handlers send one ScanCommand and never a second
  one with \<^verbatim>\<open>ExclusiveStartKey\<close>: what they get is the items of the first page whose
  \<open>AwsAccountName\<close> equals the value. An item without the attribute does not match.
\<close>

definition dynamo_send :: "env \<Rightarrow> command \<Rightarrow> world \<Rightarrow> (exn + response) \<times> world" where
  "dynamo_send env cmd w =
     (let w1 = w\<lparr>trace := trace w @ [DynamoSend cmd]\<rparr> in
      if rejects env cmd then (Inl ServiceException, w1)
      else
        (case cmd of
           ScanCommand v \<Rightarrow>
             (Inr (ScanOutput (filter (\<lambda>i. firstPage env (table w) i \<and> AwsAccountName i = Some v)
                                 (table w))), w1)
         | UpdateCommand pk sk sets \<Rightarrow>
             (Inr UpdateOutput, w1\<lparr>table := update_item pk sk sets (table w)\<rparr>)
         | PutCommand it \<Rightarrow>
             if list_ex (\<lambda>i. PK i = PK it \<and> SK i = SK it) (table w)
             then (Inl ConditionalCheckFailedException, w1)
             else (Inr PutOutput, w1\<lparr>table := table w @ [it]\<rparr>)))"


section \<open>The handler of Service Catalog's ProvisionProduct events\<close>

text \<open>
  The EventBridge envelope, as far as the handlers read it. \<open>detail\<close> is \<open>None\<close> when
  the event has no \<^verbatim>\<open>detail\<close>.
\<close>

record event =
  source :: string
  detail_type :: string
  detail :: "json option"

text \<open>
  \<^verbatim>\<open>try { body } catch (error) { console.error(msg, error) }\<close> around the whole body of
  an async function: the promise resolves either way.
\<close>

definition try_catch :: "string \<Rightarrow> (exn + unit) \<times> world \<Rightarrow> (exn + unit) \<times> world" where
  "try_catch msg r =
     (case r of
        (Inl error, w) \<Rightarrow> (Inr (), console_error msg w)
      | (Inr u, w) \<Rightarrow> (Inr u, w))"

text \<open>
  \<^verbatim>\<open>handleProvisionProduct\<close> (\<^verbatim>\<open>src/src/handlers/provision-product/index.ts\<close>), lines
  26 to 52:
  the tags \<^verbatim>\<open>ps:accountId\<close> and \<^verbatim>\<open>ps:environment\<close>, the account name and the raw status,
  with the console output on the way. \<open>None\<close> is the early return when a tag is missing.
\<close>

definition handleProvisionProduct_extract ::
  "json option \<Rightarrow> world \<Rightarrow> (exn + (json option \<times> json option \<times> json \<times> json) option) \<times> world" where
  "handleProvisionProduct_extract eventDetail w =
     (case member eventDetail ''requestParameters'' of Inl e \<Rightarrow> (Inl e, w) | Inr rp \<Rightarrow>
      (case member eventDetail ''responseElements'' of Inl e \<Rightarrow> (Inl e, w) | Inr re \<Rightarrow>
       (let requestParameters = or_default rp (JObj []);
            responseElements = or_default re (JObj [])
        in
        case member (Some responseElements) ''recordDetail'' of Inl e \<Rightarrow> (Inl e, w) | Inr rd \<Rightarrow>
        (case member (Some requestParameters) ''tags'' of Inl e \<Rightarrow> (Inl e, w) | Inr tg \<Rightarrow>
         (let recordDetail = or_default rd (JObj []);
              tags = or_default tg (JArr []);
              w1 = console_log ''Tags found:'' w
          in
          case find_value tags ''ps:accountId'' of Inl e \<Rightarrow> (Inl e, w1) | Inr psAccountId \<Rightarrow>
          (case find_value tags ''ps:environment'' of Inl e \<Rightarrow> (Inl e, w1) | Inr environment \<Rightarrow>
           (let w2 = console_log ''Extracted ps:environment:''
                       (console_log ''Extracted ps:accountId:'' w1)
            in
            if \<not> truthy psAccountId \<or> \<not> truthy environment
            then (Inr None,
                  console_error ''requestParameters:''
                    (console_error ''Missing required tags: ps:accountId or ps:environment'' w2))
            else
              (case member (Some requestParameters) ''provisioningParameters'' of
                 Inl e \<Rightarrow> (Inl e, w2)
               | Inr pp \<Rightarrow>
                 (case find_value (or_default pp (JArr [])) ''AccountName'' of
                    Inl e \<Rightarrow> (Inl e, w2)
                  | Inr an \<Rightarrow>
                    (case member (Some recordDetail) ''status'' of
                       Inl e \<Rightarrow> (Inl e, w2)
                     | Inr st \<Rightarrow>
                       (Inr (Some (psAccountId, environment,
                                   or_default an (JStr []),
                                   or_default st (JStr ''UNKNOWN''))), w2)))))))))))"

text \<open>
  Lines 54 to 78: the remap of the status, the UpdateCommand under the key built from
  the two tags (templates, line 66 and 67), and the log whose template inserts the tags,
  the status and the account name (line 78).
\<close>

definition handleProvisionProduct_update ::
  "env \<Rightarrow> json option \<Rightarrow> json option \<Rightarrow> json \<Rightarrow> json \<Rightarrow> world \<Rightarrow> (exn + unit) \<times> world" where
  "handleProvisionProduct_update env psAccountId environment accountName rawStatus w =
     (let status = (if rawStatus = JStr ''CREATED'' then JStr ''IN_PROGRESS'' else rawStatus) in
      case template psAccountId of Inl e \<Rightarrow> (Inl e, w) | Inr pk \<Rightarrow>
      (case template environment of Inl e \<Rightarrow> (Inl e, w) | Inr sk \<Rightarrow>
       (let updateParams =
              UpdateCommand (''PS#'' @ pk) (''ENV#'' @ sk)
                [(''AwsAccountStatus'', status),
                 (''AwsAccountName'', accountName),
                 (''LastModified'', JStr (now env))]
        in
        case dynamo_send env updateParams w of
          (Inl e, w1) \<Rightarrow> (Inl e, w1)
        | (Inr out, w1) \<Rightarrow>
            (case interpolate [psAccountId, environment, Some status, Some accountName] of
               Inl e \<Rightarrow> (Inl e, w1)
             | Inr u \<Rightarrow> (Inr (), console_log ''Updated DynamoDB for'' w1)))))"

text \<open>The body of the \<^verbatim>\<open>try\<close> block, and the function with its \<^verbatim>\<open>catch\<close>.\<close>

definition handleProvisionProduct_body ::
  "env \<Rightarrow> json option \<Rightarrow> world \<Rightarrow> (exn + unit) \<times> world" where
  "handleProvisionProduct_body env eventDetail w =
     (case handleProvisionProduct_extract eventDetail w of
        (Inl e, w1) \<Rightarrow> (Inl e, w1)
      | (Inr None, w1) \<Rightarrow> (Inr (), w1)
      | (Inr (Some (psAccountId, environment, accountName, rawStatus)), w1) \<Rightarrow>
          handleProvisionProduct_update env psAccountId environment accountName rawStatus w1)"

definition handleProvisionProduct :: "env \<Rightarrow> json option \<Rightarrow> world \<Rightarrow> (exn + unit) \<times> world" where
  "handleProvisionProduct env eventDetail w =
     try_catch ''Error handling ProvisionProduct event:''
       (handleProvisionProduct_body env eventDetail w)"

text \<open>
  The exported \<^verbatim>\<open>handler\<close> of provision-product/index.ts (lines 11 to 22). Both branches
  read \<^verbatim>\<open>eventDetail.eventName\<close> (the condition when the source matches, the message of
  the else branch otherwise) before any further output, outside every \<^verbatim>\<open>try\<close>: on a
  missing or \<^verbatim>\<open>null\<close> detail the promise rejects. The else branch inserts the event
  name in a template literal (line 20), outside every \<^verbatim>\<open>try\<close> as well: when the
  conversion throws, the promise rejects. \<open>Inl\<close> is the rejected promise.
\<close>

definition handler_provision_product :: "env \<Rightarrow> event \<Rightarrow> world \<Rightarrow> (exn + unit) \<times> world" where
  "handler_provision_product env event w =
     (let w1 = console_log ''Event received:'' w;
          eventDetail = detail event
      in
      case member eventDetail ''eventName'' of
        Inl e \<Rightarrow> (Inl e, w1)
      | Inr eventName \<Rightarrow>
          if source event = ''aws.servicecatalog'' \<and> eventName = Some (JStr ''ProvisionProduct'')
          then handleProvisionProduct env eventDetail
                 (console_log ''Service Catalog: Product provisioning started'' w1)
          else
            (case interpolate [Some (JStr (source event)), eventName] of
               Inl e \<Rightarrow> (Inl e, w1)
             | Inr u \<Rightarrow> (Inr (), console_log ''Unexpected event:'' w1)))"

section \<open>The handler of Control Tower's CreateManagedAccount events\<close>

text \<open>
  \<^verbatim>\<open>handleCreateManagedAccount\<close> (the create-account handler, in
  \<^verbatim>\<open>src/unnamed/part_001\<close>), lines 150 to 157: the state, the account id and the account name of the event, each
  \<^verbatim>\<open>''\<close> when missing.
\<close>

definition handleCreateManagedAccount_extract :: "json option \<Rightarrow> exn + (json \<times> json \<times> json)" where
  "handleCreateManagedAccount_extract eventDetail =
     (case member eventDetail ''serviceEventDetails'' of Inl e \<Rightarrow> Inl e | Inr sed \<Rightarrow>
      (let serviceEventDetails = or_default sed (JObj []) in
       case member (Some serviceEventDetails) ''createManagedAccountStatus'' of
         Inl e \<Rightarrow> Inl e
       | Inr cmas \<Rightarrow>
         (let createManagedAccountStatus = or_default cmas (JObj []) in
          case member (Some createManagedAccountStatus) ''account'' of
            Inl e \<Rightarrow> Inl e
          | Inr acc \<Rightarrow>
            (let account = or_default acc (JObj []) in
             case member (Some createManagedAccountStatus) ''state'' of
               Inl e \<Rightarrow> Inl e
             | Inr st \<Rightarrow>
               (case member (Some account) ''accountId'' of
                  Inl e \<Rightarrow> Inl e
                | Inr aid \<Rightarrow>
                  (case member (Some account) ''accountName'' of
                     Inl e \<Rightarrow> Inl e
                   | Inr an \<Rightarrow>
                     Inr (or_default st (JStr []),
                          or_default aid (JStr []),
                          or_default an (JStr []))))))))"

text \<open>
  Lines 159 to 212: the remap of the state, the scan for the account name, and the
  UpdateCommand on the one item found. The error messages of lines 178 and 184 insert the
  account name, the log of line 206 the account id and the status, in template literals.
\<close>

definition handleCreateManagedAccount_update ::
  "env \<Rightarrow> json \<Rightarrow> json \<Rightarrow> json \<Rightarrow> world \<Rightarrow> (exn + unit) \<times> world" where
  "handleCreateManagedAccount_update env state awsAccountId accountName w =
     (let awsAccountStatus = (if state = JStr ''SUCCEEDED'' then JStr ''READY'' else state) in
      case dynamo_send env (ScanCommand accountName) w of
        (Inl e, w1) \<Rightarrow> (Inl e, w1)
      | (Inr results, w1) \<Rightarrow>
          if length (Items results) = 0
          then
            (case interpolate [Some accountName] of
               Inl e \<Rightarrow> (Inl e, w1)
             | Inr u \<Rightarrow> (Inr (), console_error ''No DynamoDB item found for account name:'' w1))
          else if length (Items results) > 1
          then
            (case interpolate [Some accountName] of
               Inl e \<Rightarrow> (Inl e, w1)
             | Inr u \<Rightarrow>
                 (Inr (),
                  console_error ''ERROR: Found items for account name, expected exactly 1'' w1))
          else
            (let item = Items results ! 0;
                 updateParams =
                   UpdateCommand (PK item) (SK item)
                     [(''AwsAccountId'', awsAccountId),
                      (''AwsAccountStatus'', awsAccountStatus),
                      (''LastModified'', JStr (now env))]
             in
             case dynamo_send env updateParams w1 of
               (Inl e, w2) \<Rightarrow> (Inl e, w2)
             | (Inr out, w2) \<Rightarrow>
                 (case interpolate [Some awsAccountId, Some awsAccountStatus] of
                    Inl e \<Rightarrow> (Inl e, w2)
                  | Inr u \<Rightarrow>
                      (Inr (), console_log ''Control Tower account creation processed:''
                                 (console_log ''Updated DynamoDB for'' w2)))))"

definition handleCreateManagedAccount_body ::
  "env \<Rightarrow> json option \<Rightarrow> world \<Rightarrow> (exn + unit) \<times> world" where
  "handleCreateManagedAccount_body env eventDetail w =
     (case handleCreateManagedAccount_extract eventDetail of
        Inl e \<Rightarrow> (Inl e, w)
      | Inr (state, awsAccountId, accountName) \<Rightarrow>
          handleCreateManagedAccount_update env state awsAccountId accountName w)"

definition handleCreateManagedAccount :: "env \<Rightarrow> json option \<Rightarrow> world \<Rightarrow> (exn + unit) \<times> world" where
  "handleCreateManagedAccount env eventDetail w =
     try_catch ''Error handling CreateManagedAccount event:''
       (handleCreateManagedAccount_body env eventDetail w)"

text \<open>
  The exported \<^verbatim>\<open>handler\<close> of the create-account handler (lines 134 to 145), with the
  template literal of its else branch (line 143) outside every \<^verbatim>\<open>try\<close>.
\<close>

definition handler_create_account :: "env \<Rightarrow> event \<Rightarrow> world \<Rightarrow> (exn + unit) \<times> world" where
  "handler_create_account env event w =
     (let w1 = console_log ''Event received:'' w;
          eventDetail = detail event
      in
      case member eventDetail ''eventName'' of
        Inl e \<Rightarrow> (Inl e, w1)
      | Inr eventName \<Rightarrow>
          if source event = ''aws.controltower'' \<and> eventName = Some (JStr ''CreateManagedAccount'')
          then handleCreateManagedAccount env eventDetail
                 (console_log ''Control Tower: Account creation completed'' w1)
          else
            (case interpolate [Some (JStr (source event)), eventName] of
               Inl e \<Rightarrow> (Inl e, w1)
             | Inr u \<Rightarrow> (Inr (), console_log ''Unexpected event:'' w1)))"

section \<open>The handler of CloudFormation's StackSet instance status changes\<close>

text \<open>
  \<^verbatim>\<open>handleStackSetInstanceStatusChange\<close> (the stackset-status handler, in
  \<^verbatim>\<open>src/unnamed/part_001\<close>), lines 31 to 43:
  the account id, the fifth colon-delimited part of \<^verbatim>\<open>stack-id\<close>, and the status
  (\<^verbatim>\<open>detailed-status\<close> before \<^verbatim>\<open>status\<close>). \<open>None\<close> is the early return on a stack-id of
  fewer than five parts. A stack-id that is not a string has no \<^verbatim>\<open>split\<close>: the call
  throws.
\<close>

definition handleStackSetInstanceStatusChange_extract ::
  "json option \<Rightarrow> world \<Rightarrow> (exn + (string \<times> json) option) \<times> world" where
  "handleStackSetInstanceStatusChange_extract eventDetail w =
     (case member eventDetail ''stack-id'' of Inl e \<Rightarrow> (Inl e, w) | Inr sid \<Rightarrow>
      (case member eventDetail ''status-details'' of Inl e \<Rightarrow> (Inl e, w) | Inr sd \<Rightarrow>
       (let stackId = or_default sid (JStr []);
            statusDetails = or_default sd (JObj [])
        in
        case stackId of
          JStr s \<Rightarrow>
            (let stackIdParts = split CHR '':'' s in
             if length stackIdParts < 5
             then (Inr None, console_error ''Invalid stack-id format:'' w)
             else
               (let accountId = stackIdParts ! 4 in
                case member (Some statusDetails) ''detailed-status'' of
                  Inl e \<Rightarrow> (Inl e, w)
                | Inr ds \<Rightarrow>
                  (case member (Some statusDetails) ''status'' of
                     Inl e \<Rightarrow> (Inl e, w)
                   | Inr st \<Rightarrow>
                     (Inr (Some (accountId, or_default (or_js ds st) (JStr []))), w))))
        | JNull \<Rightarrow> (Inl TypeError, w)
        | JBool b \<Rightarrow> (Inl TypeError, w)
        | JArr xs \<Rightarrow> (Inl TypeError, w)
        | JObj ps \<Rightarrow> (Inl TypeError, w))))"

text \<open>Line 80: only \<^verbatim>\<open>SUCCEEDED\<close> becomes \<^verbatim>\<open>READY\<close>, every other status stays as it is.\<close>

definition roleStatus :: "json \<Rightarrow> json" where
  "roleStatus stackSetStatus =
     (if stackSetStatus = JStr ''SUCCEEDED'' then JStr ''READY'' else stackSetStatus)"

text \<open>Line 98: the ARN of the role in the account.\<close>

definition roleArn :: "string \<Rightarrow> string" where
  "roleArn accountId = ''arn:aws:iam::'' @ accountId @ '':role/PageSuiteRole''"

text \<open>
  Line 50: the name of the account, when \<^verbatim>\<open>!Account || !Account.Name\<close> is false.
\<close>

definition account_name :: "account option \<Rightarrow> string option" where
  "account_name Account =
     (case Account of
        None \<Rightarrow> None
      | Some a \<Rightarrow> (case Name a of None \<Rightarrow> None | Some n \<Rightarrow> if n = [] then None else Some n))"

text \<open>
  Lines 45 to 119: the directory lookup of the account's name, the scan for that name,
  the skip when the role is already recorded as deployed, and the UpdateCommand on the
  one item found. The log of line 112 inserts the role status in a template literal; the
  other messages insert strings only.
\<close>

definition handleStackSetInstanceStatusChange_update ::
  "env \<Rightarrow> string \<Rightarrow> json \<Rightarrow> world \<Rightarrow> (exn + unit) \<times> world" where
  "handleStackSetInstanceStatusChange_update env accountId stackSetStatus w =
     (case org_send env accountId w of
        (Inl e, w1) \<Rightarrow> (Inl e, w1)
      | (Inr Account, w1) \<Rightarrow>
          (case account_name Account of
             None \<Rightarrow>
               (Inr (), console_error ''Could not retrieve account name for account ID:'' w1)
           | Some name \<Rightarrow>
            (case dynamo_send env (ScanCommand (JStr name)) w1 of
               (Inl e, w2) \<Rightarrow> (Inl e, w2)
             | (Inr results, w2) \<Rightarrow>
                 if length (Items results) = 0
                 then (Inr (), console_log ''No DynamoDB item found for account name:'' w2)
                 else if length (Items results) > 1
                 then (Inr (),
                       console_error ''ERROR: Found items for account name, expected exactly 1'' w2)
                 else
                   (let item = Items results ! 0 in
                    if roleStatus stackSetStatus = JStr ''READY''
                       \<and> PageSuiteRoleStatus item = Some (JStr ''READY'')
                       \<and> truthy (PageSuiteRoleArn item)
                    then (Inr (), console_log ''PageSuiteRole already deployed, skipping update'' w2)
                    else
                      (let expressionAttributeValues =
                             (if roleStatus stackSetStatus = JStr ''READY''
                              then [(''PageSuiteRoleArn'', JStr (roleArn accountId)),
                                    (''PageSuiteRoleStatus'', roleStatus stackSetStatus),
                                    (''LastModified'', JStr (now env))]
                              else [(''PageSuiteRoleStatus'', roleStatus stackSetStatus),
                                    (''LastModified'', JStr (now env))]);
                           updateParams = UpdateCommand (PK item) (SK item) expressionAttributeValues
                       in
                       case dynamo_send env updateParams w2 of
                         (Inl e, w3) \<Rightarrow> (Inl e, w3)
                       | (Inr out, w3) \<Rightarrow>
                           (case interpolate [Some (roleStatus stackSetStatus)] of
                              Inl e \<Rightarrow> (Inl e, w3)
                            | Inr u \<Rightarrow>
                                (Inr (), console_log ''StackSet instance status processed:''
                                           (console_log ''Updated DynamoDB for'' w3))))))))"

definition handleStackSetInstanceStatusChange_body ::
  "env \<Rightarrow> json option \<Rightarrow> world \<Rightarrow> (exn + unit) \<times> world" where
  "handleStackSetInstanceStatusChange_body env eventDetail w =
     (case handleStackSetInstanceStatusChange_extract eventDetail w of
        (Inl e, w1) \<Rightarrow> (Inl e, w1)
      | (Inr None, w1) \<Rightarrow> (Inr (), w1)
      | (Inr (Some (accountId, stackSetStatus)), w1) \<Rightarrow>
          handleStackSetInstanceStatusChange_update env accountId stackSetStatus w1)"

definition handleStackSetInstanceStatusChange ::
  "env \<Rightarrow> json option \<Rightarrow> world \<Rightarrow> (exn + unit) \<times> world" where
  "handleStackSetInstanceStatusChange env eventDetail w =
     try_catch ''Error handling StackSet instance status change:''
       (handleStackSetInstanceStatusChange_body env eventDetail w)"

text \<open>
  The exported \<^verbatim>\<open>handler\<close> of the stackset-status handler (lines 15 to 26). It reads
  nothing of the detail outside \<^verbatim>\<open>handleStackSetInstanceStatusChange\<close>.
\<close>

definition handler_stackset_status :: "env \<Rightarrow> event \<Rightarrow> world \<Rightarrow> (exn + unit) \<times> world" where
  "handler_stackset_status env event w =
     (let w1 = console_log ''Event received:'' w;
          eventDetail = detail event
      in
      if source event = ''aws.cloudformation''
         \<and> detail_type event = ''CloudFormation StackSet StackInstance Status Change''
      then handleStackSetInstanceStatusChange env eventDetail
             (console_log ''CloudFormation: StackSet instance status change'' w1)
      else (Inr (), console_log ''Unexpected event:'' w1))"

section \<open>The creation script\<close>

text \<open>
  \<^verbatim>\<open>main\<close> of \<^verbatim>\<open>src/src/local/test-account-creation.ts\<close> (lines 28 to 79).
  \<open>PAGESUITE_ACCOUNT_ID\<close> is the UUID the
  script draws. The PutCommand is awaited outside every \<^verbatim>\<open>try\<close>: when it throws,
  \<^verbatim>\<open>main\<close> rejects and nothing after it runs. \<^verbatim>\<open>requestAwsAccount\<close> catches its own
  errors; \<^verbatim>\<open>getLatestActiveArtifactId\<close> does not.
\<close>

definition ENVIRONMENT :: string where
  "ENVIRONMENT = ''Dev''"

definition main :: "env \<Rightarrow> string \<Rightarrow> world \<Rightarrow> (exn + unit) \<times> world" where
  "main env PAGESUITE_ACCOUNT_ID w =
     (let w1 = console_log ''Creating account with PageSuite Account ID:'' w;
          cmdInput =
            PutCommand
              \<lparr>PK = ''PS#'' @ PAGESUITE_ACCOUNT_ID,
               SK = ''ENV#'' @ ENVIRONMENT,
               AwsAccountStatus = Some (JStr ''PENDING''),
               AwsAccountId = Some (JStr []),
               AwsAccountName = Some (JStr []),
               PageSuiteRoleStatus = Some (JStr ''PENDING''),
               PageSuiteRoleArn = Some (JStr []),
               LastModified = Some (JStr (now env))\<rparr>
      in
      case dynamo_send env cmdInput w1 of
        (Inl e, w2) \<Rightarrow> (Inl e, w2)
      | (Inr out, w2) \<Rightarrow>
          (let w3 = w2\<lparr>trace := trace w2 @ [ServiceCatalogSend ''ListProvisioningArtifacts'']\<rparr> in
           case latestActiveArtifactId env of
             Inl e \<Rightarrow> (Inl e, w3)
           | Inr artifactId \<Rightarrow>
               (Inr (), console_log []
                          (w3\<lparr>trace := trace w3 @ [ServiceCatalogSend ''ProvisionProduct'']\<rparr>))))"

section \<open>Sequences of invocations\<close>

text \<open>
  One delivery: which Lambda function receives which event, under which environment.
  Invocations share nothing but the table; a run keeps the world of a rejected invocation
  as it left it.
\<close>

datatype invocation =
    ProvisionProduct event
  | CreateManagedAccount event
  | StackSetStatusChange event

fun invoke :: "env \<Rightarrow> invocation \<Rightarrow> world \<Rightarrow> (exn + unit) \<times> world" where
  "invoke env (ProvisionProduct ev) w = handler_provision_product env ev w"
| "invoke env (CreateManagedAccount ev) w = handler_create_account env ev w"
| "invoke env (StackSetStatusChange ev) w = handler_stackset_status env ev w"

fun run :: "(env \<times> invocation) list \<Rightarrow> world \<Rightarrow> world" where
  "run [] w = w"
| "run ((env, i) # rest) w = run rest (snd (invoke env i w))"

section \<open>Properties of records and tables\<close>

text \<open>
  The invariant of the data model as the specification words it: the role's ARN is
  non-empty exactly when the role's status is \<^verbatim>\<open>READY\<close>. Non-empty is what the code
  tests: the attribute is there and truthy.
\<close>

definition roleArn_iff_ready :: "item \<Rightarrow> bool" where
  "roleArn_iff_ready i =
     (truthy (PageSuiteRoleArn i) = (PageSuiteRoleStatus i = Some (JStr ''READY'')))"

text \<open>The half of it that the handlers keep: a \<^verbatim>\<open>READY\<close> role has its ARN.\<close>

definition ready_has_roleArn :: "item \<Rightarrow> bool" where
  "ready_has_roleArn i =
     (PageSuiteRoleStatus i = Some (JStr ''READY'') \<longrightarrow> truthy (PageSuiteRoleArn i))"

text \<open>
  Between an item and its successor under the same key: the attribute \<open>f\<close> is the same;
  the attribute \<open>f\<close>, when non-empty, is still non-empty. Between two tables: the
  relation holds of every item of the first and the item at its place in the second.
\<close>

definition same_on :: "(item \<Rightarrow> 'a) \<Rightarrow> item \<Rightarrow> item \<Rightarrow> bool" where
  "same_on f i j = (PK j = PK i \<and> SK j = SK i \<and> f j = f i)"

definition stays_nonempty :: "(item \<Rightarrow> json option) \<Rightarrow> item \<Rightarrow> item \<Rightarrow> bool" where
  "stays_nonempty f i j = (PK j = PK i \<and> SK j = SK i \<and> (truthy (f i) \<longrightarrow> truthy (f j)))"

definition along :: "(item \<Rightarrow> item \<Rightarrow> bool) \<Rightarrow> item list \<Rightarrow> item list \<Rightarrow> bool" where
  "along R old new = list_all2 R old (take (length old) new)"

text \<open>DynamoDB's own invariant: one item per key.\<close>

definition distinct_keys :: "item list \<Rightarrow> bool" where
  "distinct_keys tbl = distinct (map (\<lambda>i. (PK i, SK i)) tbl)"

section \<open>Concrete events and environments\<close>

text \<open>
  A directory that knows account \<^verbatim>\<open>111\<close> under the name \<^verbatim>\<open>n1\<close> and throws on every
  other id, and an environment at time \<open>t\<close> in which no service call is rejected and
  the first page of a Scan holds the whole table.
\<close>

definition directory :: "string \<Rightarrow> exn + account option" where
  "directory accountId =
     (if accountId = ''111'' then Inr (Some \<lparr>Name = Some ''n1''\<rparr>) else Inl ServiceException)"

definition calm :: "string \<Rightarrow> env" where
  "calm t = \<lparr>now = t, describeAccount = directory, rejects = (\<lambda>cmd. False),
             firstPage = (\<lambda>tbl i. True), latestActiveArtifactId = Inr ''pa-1''\<rparr>"

text \<open>The same environment, with a table service that rejects every command.\<close>

definition stormy :: "string \<Rightarrow> env" where
  "stormy t = \<lparr>now = t, describeAccount = directory, rejects = (\<lambda>cmd. True),
               firstPage = (\<lambda>tbl i. True), latestActiveArtifactId = Inr ''pa-1''\<rparr>"

definition tag :: "string \<Rightarrow> string \<Rightarrow> json" where
  "tag k v = JObj [(''key'', JStr k), (''value'', JStr v)]"

text \<open>
  A ProvisionProduct event with the two tags, the provisioning parameters and the record
  status; a CreateManagedAccount event with the properties of its \<^verbatim>\<open>account\<close> and its
  state; a StackSet status change with its stack-id and detailed status.
\<close>

definition provision_event :: "string \<Rightarrow> string \<Rightarrow> json list \<Rightarrow> string \<Rightarrow> event" where
  "provision_event tenant environment provisioningParameters status =
     \<lparr>source = ''aws.servicecatalog'',
      detail_type = ''AWS API Call via CloudTrail'',
      detail = Some (JObj
        [(''eventName'', JStr ''ProvisionProduct''),
         (''requestParameters'', JObj
            [(''tags'', JArr [tag ''ps:accountId'' tenant, tag ''ps:environment'' environment]),
             (''provisioningParameters'', JArr provisioningParameters)]),
         (''responseElements'', JObj [(''recordDetail'', JObj [(''status'', JStr status)])])])\<rparr>"

definition account_event :: "(string \<times> json) list \<Rightarrow> string \<Rightarrow> event" where
  "account_event account state =
     \<lparr>source = ''aws.controltower'',
      detail_type = ''AWS Service Event via CloudTrail'',
      detail = Some (JObj
        [(''eventName'', JStr ''CreateManagedAccount''),
         (''serviceEventDetails'', JObj
            [(''createManagedAccountStatus'', JObj
               [(''state'', JStr state), (''account'', JObj account)])])])\<rparr>"

definition stackset_event :: "string \<Rightarrow> string \<Rightarrow> event" where
  "stackset_event stackId status =
     \<lparr>source = ''aws.cloudformation'',
      detail_type = ''CloudFormation StackSet StackInstance Status Change'',
      detail = Some (JObj
        [(''stack-id'', JStr stackId),
         (''status-details'', JObj [(''detailed-status'', JStr status)])])\<rparr>"

text \<open>The record of tenant \<^verbatim>\<open>t1\<close> in \<^verbatim>\<open>Dev\<close>, as the creation script leaves it at time \<open>t\<close>.\<close>

definition created :: "string \<Rightarrow> world" where
  "created t = snd (main (calm t) ''t1'' \<lparr>table = [], trace = []\<rparr>)"

text \<open>
  The three deliveries of the specification's scenario: the provisioning request with
  raw status \<^verbatim>\<open>CREATED\<close> and account name \<^verbatim>\<open>n1\<close>, the creation of account \<^verbatim>\<open>111\<close> named
  \<^verbatim>\<open>n1\<close> with state \<^verbatim>\<open>SUCCEEDED\<close>, and the role deployed in account \<^verbatim>\<open>111\<close> with status
  \<^verbatim>\<open>SUCCEEDED\<close>.
\<close>

definition stack_111 :: string where
  "stack_111 = ''arn:aws:cloudformation:eu-west-1:111:stack/StackSet-PageSuiteRole/1''"

definition provision_requested_n1 :: event where
  "provision_requested_n1 = provision_event ''t1'' ''Dev'' [tag ''AccountName'' ''n1''] ''CREATED''"

definition account_created_111 :: event where
  "account_created_111 =
     account_event [(''accountId'', JStr ''111''), (''accountName'', JStr ''n1'')] ''SUCCEEDED''"

definition role_deployed_111 :: event where
  "role_deployed_111 = stackset_event stack_111 ''SUCCEEDED''"

definition scenario :: "(env \<times> invocation) list" where
  "scenario =
     [(calm ''t1'', ProvisionProduct provision_requested_n1),
      (calm ''t2'', CreateManagedAccount account_created_111),
      (calm ''t3'', StackSetStatusChange role_deployed_111)]"

text \<open>The record of the scenario once all three deliveries are applied.\<close>

definition ready_record :: "string \<Rightarrow> item" where
  "ready_record t =
     \<lparr>PK = ''PS#t1'', SK = ''ENV#Dev'',
      AwsAccountStatus = Some (JStr ''READY''),
      AwsAccountId = Some (JStr ''111''),
      AwsAccountName = Some (JStr ''n1''),
      PageSuiteRoleStatus = Some (JStr ''READY''),
      PageSuiteRoleArn = Some (JStr ''arn:aws:iam::111:role/PageSuiteRole''),
      LastModified = Some (JStr t)\<rparr>"

text \<open>
  A table holding that record alone, and a table in which a second tenant's record shares
  its account name.
\<close>

definition ready_world :: world where
  "ready_world = \<lparr>table = [ready_record ''t3''], trace = []\<rparr>"

definition twins :: world where
  "twins = \<lparr>table = [ready_record ''t3'', (ready_record ''t3'')\<lparr>PK := ''PS#t2''\<rparr>], trace = []\<rparr>"

text \<open>
  An environment in which the first page of a Scan holds the records of tenant \<^verbatim>\<open>t1\<close>
  only: the table is larger than one page, and whatever else it holds comes later in
  the scan.
\<close>

definition paged :: "string \<Rightarrow> env" where
  "paged t = \<lparr>now = t, describeAccount = directory, rejects = (\<lambda>cmd. False),
              firstPage = (\<lambda>tbl i. PK i = ''PS#t1''), latestActiveArtifactId = Inr ''pa-1''\<rparr>"

text \<open>
  An event from the source \<open>src\<close> whose detail is an object and whose event name is an
  object with an own property \<^verbatim>\<open>toString\<close>:
  \<^verbatim>\<open>{"eventName": {"toString": "x"}}\<close>.
\<close>

definition unprintable_event :: "string \<Rightarrow> event" where
  "unprintable_event src =
     \<lparr>source = src,
      detail_type = ''AWS API Call via CloudTrail'',
      detail = Some (JObj [(''eventName'', JObj [(''toString'', JStr ''x'')])])\<rparr>"

text \<open>
  A ProvisionProduct event whose \<^verbatim>\<open>tags\<close> is a string, the stack of a role in an account
  the directory does not know, and the delivery of a failed role deployment in account
  \<^verbatim>\<open>111\<close>.
\<close>

definition bad_tags_event :: event where
  "bad_tags_event =
     \<lparr>source = ''aws.servicecatalog'',
      detail_type = ''AWS API Call via CloudTrail'',
      detail = Some (JObj
        [(''eventName'', JStr ''ProvisionProduct''),
         (''requestParameters'', JObj [(''tags'', JStr ''ps:accountId=t1'')])])\<rparr>"

definition stack_222 :: string where
  "stack_222 = ''arn:aws:cloudformation:eu-west-1:222:stack/StackSet-PageSuiteRole/2''"

definition role_failed :: "env \<times> invocation" where
  "role_failed = (calm ''t4'', StackSetStatusChange (stackset_event stack_111 ''FAILED''))"

section \<open>Unfolding the model\<close>

lemmas js_defs =
  Let_def or_js_def or_default_def opt_member_def find_value_def template_def

lemmas store_defs =
  Let_def new_item_def set_attribute_def get_item_def console_log_def console_error_def
  org_send_def dynamo_send_def try_catch_def

lemmas provision_defs =
  handleProvisionProduct_extract_def handleProvisionProduct_update_def
  handleProvisionProduct_body_def handleProvisionProduct_def handler_provision_product_def

lemmas account_defs =
  handleCreateManagedAccount_extract_def handleCreateManagedAccount_update_def
  handleCreateManagedAccount_body_def handleCreateManagedAccount_def handler_create_account_def

lemmas stackset_defs =
  handleStackSetInstanceStatusChange_extract_def roleStatus_def roleArn_def account_name_def
  handleStackSetInstanceStatusChange_update_def handleStackSetInstanceStatusChange_body_def
  handleStackSetInstanceStatusChange_def handler_stackset_status_def

lemmas example_defs =
  directory_def calm_def stormy_def paged_def unprintable_event_def tag_def provision_event_def account_event_def
  stackset_event_def created_def stack_111_def provision_requested_n1_def
  account_created_111_def role_deployed_111_def scenario_def ready_record_def ready_world_def
  twins_def bad_tags_event_def stack_222_def role_failed_def ENVIRONMENT_def main_def

lemmas all_defs = js_defs store_defs provision_defs account_defs stackset_defs example_defs

section \<open>Basic facts\<close>

lemma table_console_log: "table (console_log m w) = table w"
  by (simp add: console_log_def)

lemma table_console_error: "table (console_error m w) = table w"
  by (simp add: console_error_def)

lemma fst_try_catch: "fst (try_catch m r) = Inr ()"
  by (cases r) (simp add: try_catch_def split: sum.splits)

lemma table_try_catch: "table (snd (try_catch m r)) = table (snd r)"
  by (cases r) (simp add: try_catch_def table_console_error split: sum.splits)

lemma try_catch_returned: "try_catch m (Inr u, w) = (Inr u, w)"
  by (simp add: try_catch_def)

lemma try_catch_thrown: "try_catch m (Inl e, w) = (Inr (), console_error m w)"
  by (simp add: try_catch_def)

lemma member_defined: "member v k = Inr x \<Longrightarrow> \<exists>y. member v k' = Inr y"
  by (cases "(v, k)" rule: member.cases) auto

lemma find_list_ex: "find P xs = Some x \<Longrightarrow> list_ex P xs"
  by (induction xs) (auto split: if_splits)

lemma filter_first_page:
  assumes "filter Q tbl = [item]"
  shows "filter (\<lambda>i. P i \<and> Q i) tbl = (if P item then [item] else [])"
proof -
  have "filter (\<lambda>i. P i \<and> Q i) tbl = filter P (filter Q tbl)"
    by (simp add: conj_commute)
  then show ?thesis
    using assms by simp
qed

section \<open>The table under updates\<close>

lemma PK_set_attribute: "PK (set_attribute a i) = PK i"
  by (simp add: set_attribute_def)

lemma SK_set_attribute: "SK (set_attribute a i) = SK i"
  by (simp add: set_attribute_def)

lemma keys_set_attributes: "PK (set_attributes sets i) = PK i \<and> SK (set_attributes sets i) = SK i"
  by (induction sets arbitrary: i) (simp_all add: PK_set_attribute SK_set_attribute)

lemma map_unchanged: "item \<notin> set tbl \<Longrightarrow> map (\<lambda>j. if j = item then x else j) tbl = tbl"
  by (induction tbl) auto

lemma same_key_same_item:
  assumes "distinct_keys tbl" and "i \<in> set tbl" and "j \<in> set tbl"
      and "PK i = PK j" and "SK i = SK j"
  shows "i = j"
proof -
  have "inj_on (\<lambda>i. (PK i, SK i)) (set tbl)"
    using assms(1) unfolding distinct_keys_def by (simp add: distinct_map)
  then show ?thesis
    using assms(2-5) by (auto dest: inj_onD)
qed

lemma update_item_present:
  assumes "distinct_keys tbl" and "item \<in> set tbl"
  shows "update_item (PK item) (SK item) sets tbl =
           map (\<lambda>j. if j = item then set_attributes sets item else j) tbl"
  using assms
proof (induction tbl)
  case Nil
  then show ?case by simp
next
  case (Cons i rest)
  have d: "distinct_keys rest"
    using Cons.prems(1) by (simp add: distinct_keys_def)
  show ?case
  proof (cases "PK i = PK item \<and> SK i = SK item")
    case True
    then have eq: "i = item"
      using same_key_same_item [OF Cons.prems(1), of i item] Cons.prems(2) by simp
    have "(PK item, SK item) \<notin> set (map (\<lambda>i. (PK i, SK i)) rest)"
      using Cons.prems(1) eq by (simp add: distinct_keys_def)
    then have "item \<notin> set rest"
      by force
    then show ?thesis
      using eq by (simp add: map_unchanged)
  next
    case False
    then have "i \<noteq> item" by auto
    moreover have "item \<in> set rest"
      using Cons.prems(2) \<open>i \<noteq> item\<close> by auto
    ultimately show ?thesis
      using False Cons.IH [OF d] by auto
  qed
qed


lemma list_all_update_item:
  assumes "list_all P tbl"
      and "P (set_attributes sets (new_item pk sk))"
      and "\<And>i. P i \<Longrightarrow> P (set_attributes sets i)"
  shows "list_all P (update_item pk sk sets tbl)"
  using assms by (induction tbl) auto

lemma keys_update_item:
  "map (\<lambda>i. (PK i, SK i)) (update_item pk sk sets tbl) =
     (if (pk, sk) \<in> set (map (\<lambda>i. (PK i, SK i)) tbl)
      then map (\<lambda>i. (PK i, SK i)) tbl
      else map (\<lambda>i. (PK i, SK i)) tbl @ [(pk, sk)])"
  by (induction tbl) (auto simp: keys_set_attributes new_item_def)

lemma distinct_keys_update_item:
  "distinct_keys tbl \<Longrightarrow> distinct_keys (update_item pk sk sets tbl)"
  unfolding distinct_keys_def keys_update_item by simp

lemma table_dynamo_send:
  "table (snd (dynamo_send env cmd w)) =
     (if rejects env cmd then table w
      else (case cmd of
              ScanCommand v \<Rightarrow> table w
            | UpdateCommand pk sk sets \<Rightarrow> update_item pk sk sets (table w)
            | PutCommand it \<Rightarrow>
                if list_ex (\<lambda>i. PK i = PK it \<and> SK i = SK it) (table w) then table w
                else table w @ [it]))"
  by (simp add: dynamo_send_def Let_def split: command.splits)

section \<open>What a handler does to the table\<close>

lemma stackset_extract_world:
  assumes "handleStackSetInstanceStatusChange_extract d w = (Inr (Some x), w1)"
  shows "w1 = w"
  using assms
  by (auto simp: handleStackSetInstanceStatusChange_extract_def Let_def
      split: sum.splits json.splits if_splits)

lemma provision_extract_table:
  "table (snd (handleProvisionProduct_extract d w)) = table w"
  by (simp add: handleProvisionProduct_extract_def Let_def table_console_log table_console_error
      split: sum.splits)

lemma stackset_extract_table:
  "table (snd (handleStackSetInstanceStatusChange_extract d w)) = table w"
  by (simp add: handleStackSetInstanceStatusChange_extract_def Let_def table_console_error
      split: sum.splits json.splits)

lemma provision_update_table:
  "table (snd (handleProvisionProduct_update env p e n raw w)) = table w
   \<or> (\<exists>pk sk.
         template p = Inr pk \<and> template e = Inr sk
         \<and> \<not> rejects env
               (UpdateCommand (''PS#'' @ pk) (''ENV#'' @ sk)
                  [(''AwsAccountStatus'', if raw = JStr ''CREATED'' then JStr ''IN_PROGRESS'' else raw),
                   (''AwsAccountName'', n), (''LastModified'', JStr (now env))])
         \<and> table (snd (handleProvisionProduct_update env p e n raw w)) =
             update_item (''PS#'' @ pk) (''ENV#'' @ sk)
               [(''AwsAccountStatus'', if raw = JStr ''CREATED'' then JStr ''IN_PROGRESS'' else raw),
                (''AwsAccountName'', n), (''LastModified'', JStr (now env))] (table w))"
  by (auto simp: handleProvisionProduct_update_def dynamo_send_def Let_def table_console_log
      split: sum.splits)


lemma account_update_table:
  "table (snd (handleCreateManagedAccount_update env state awsAccountId accountName w)) = table w
   \<or> (\<exists>pk sk. table (snd (handleCreateManagedAccount_update env state awsAccountId accountName w)) =
         update_item pk sk
           [(''AwsAccountId'', awsAccountId),
            (''AwsAccountStatus'', if state = JStr ''SUCCEEDED'' then JStr ''READY'' else state),
            (''LastModified'', JStr (now env))] (table w))"
  by (auto simp: handleCreateManagedAccount_update_def dynamo_send_def Let_def table_console_log
      table_console_error split: sum.splits)

lemma stackset_update_table:
  "table (snd (handleStackSetInstanceStatusChange_update env accountId stackSetStatus w)) = table w
   \<or> (\<exists>pk sk. table (snd (handleStackSetInstanceStatusChange_update env accountId stackSetStatus w)) =
         update_item pk sk
           (if roleStatus stackSetStatus = JStr ''READY''
            then [(''PageSuiteRoleArn'', JStr (roleArn accountId)),
                  (''PageSuiteRoleStatus'', roleStatus stackSetStatus),
                  (''LastModified'', JStr (now env))]
            else [(''PageSuiteRoleStatus'', roleStatus stackSetStatus),
                  (''LastModified'', JStr (now env))]) (table w))"
  by (auto simp: handleStackSetInstanceStatusChange_update_def org_send_def dynamo_send_def
      Let_def table_console_log table_console_error split: sum.splits option.splits)

lemma stackset_update_correlated:
  assumes "describeAccount env accountId = Inr Account"
      and "account_name Account = Some name"
      and "\<not> rejects env (ScanCommand (JStr name))"
      and "filter (\<lambda>i. firstPage env (table w) i \<and> AwsAccountName i = Some (JStr name)) (table w)
             = [item]"
  shows "handleStackSetInstanceStatusChange_update env accountId stackSetStatus w =
     (let w2 = w\<lparr>trace := trace w @ [OrganizationsSend accountId, DynamoSend (ScanCommand (JStr name))]\<rparr>
      in
      if roleStatus stackSetStatus = JStr ''READY''
         \<and> PageSuiteRoleStatus item = Some (JStr ''READY'') \<and> truthy (PageSuiteRoleArn item)
      then (Inr (), console_log ''PageSuiteRole already deployed, skipping update'' w2)
      else
        (case dynamo_send env
                (UpdateCommand (PK item) (SK item)
                   (if roleStatus stackSetStatus = JStr ''READY''
                    then [(''PageSuiteRoleArn'', JStr (roleArn accountId)),
                          (''PageSuiteRoleStatus'', roleStatus stackSetStatus),
                          (''LastModified'', JStr (now env))]
                    else [(''PageSuiteRoleStatus'', roleStatus stackSetStatus),
                          (''LastModified'', JStr (now env))])) w2 of
           (Inl e, w3) \<Rightarrow> (Inl e, w3)
         | (Inr out, w3) \<Rightarrow>
             (case interpolate [Some (roleStatus stackSetStatus)] of
                Inl e \<Rightarrow> (Inl e, w3)
              | Inr u \<Rightarrow>
                  (Inr (), console_log ''StackSet instance status processed:''
                             (console_log ''Updated DynamoDB for'' w3)))))"
  using assms
  by (simp add: handleStackSetInstanceStatusChange_update_def org_send_def dynamo_send_def Let_def)

lemma stackset_update_not_found:
  assumes "describeAccount env accountId = Inr Account"
      and "account_name Account = Some name"
      and "\<not> rejects env (ScanCommand (JStr name))"
      and "filter (\<lambda>i. firstPage env (table w) i \<and> AwsAccountName i = Some (JStr name)) (table w)
             = []"
  shows "handleStackSetInstanceStatusChange_update env accountId stackSetStatus w =
     (Inr (), w\<lparr>trace := trace w @
        [OrganizationsSend accountId, DynamoSend (ScanCommand (JStr name)),
         ConsoleLog ''No DynamoDB item found for account name:'']\<rparr>)"
  using assms
  by (simp add: handleStackSetInstanceStatusChange_update_def org_send_def dynamo_send_def
      Let_def console_log_def)

lemma provision_table:
  "table (snd (handleProvisionProduct env d w)) = table w
   \<or> (\<exists>p e n raw w1 pk sk.
         handleProvisionProduct_extract d w = (Inr (Some (p, e, n, raw)), w1)
         \<and> table (snd (handleProvisionProduct env d w)) =
             update_item pk sk
               [(''AwsAccountStatus'', if raw = JStr ''CREATED'' then JStr ''IN_PROGRESS'' else raw),
                (''AwsAccountName'', n), (''LastModified'', JStr (now env))] (table w))"
proof (cases "handleProvisionProduct_extract d w")
  case (Pair r w1)
  have t: "table w1 = table w"
    using provision_extract_table [of d w] Pair by simp
  show ?thesis
  proof (cases r)
    case (Inl e)
    then show ?thesis
      using Pair t by (simp add: handleProvisionProduct_def handleProvisionProduct_body_def
          table_try_catch)
  next
    case (Inr signal)
    show ?thesis
    proof (cases signal)
      case None
      then show ?thesis
        using Pair Inr t by (simp add: handleProvisionProduct_def handleProvisionProduct_body_def
            table_try_catch)
    next
      case (Some x)
      obtain p e n raw where x: "x = (p, e, n, raw)"
        by (cases x) auto
      have r: "table (snd (handleProvisionProduct env d w)) =
          table (snd (handleProvisionProduct_update env p e n raw w1))"
        using Pair Inr Some x
        by (simp add: handleProvisionProduct_def handleProvisionProduct_body_def table_try_catch)
      have x': "handleProvisionProduct_extract d w = (Inr (Some (p, e, n, raw)), w1)"
        using Pair Inr Some x by simp
      show ?thesis
        unfolding r x' using provision_update_table [of env p e n raw w1] unfolding t by blast
    qed
  qed
qed

lemma account_table:
  "table (snd (handleCreateManagedAccount env d w)) = table w
   \<or> (\<exists>state aid name pk sk.
         handleCreateManagedAccount_extract d = Inr (state, aid, name)
         \<and> table (snd (handleCreateManagedAccount env d w)) =
             update_item pk sk
               [(''AwsAccountId'', aid),
                (''AwsAccountStatus'', if state = JStr ''SUCCEEDED'' then JStr ''READY'' else state),
                (''LastModified'', JStr (now env))] (table w))"
proof (cases "handleCreateManagedAccount_extract d")
  case (Inl e)
  then show ?thesis
    by (simp add: handleCreateManagedAccount_def handleCreateManagedAccount_body_def
        table_try_catch)
next
  case (Inr x)
  obtain state aid name where x: "x = (state, aid, name)"
    by (cases x) auto
  show ?thesis
    using Inr x account_update_table [of env state aid name w]
    by (auto simp: handleCreateManagedAccount_def handleCreateManagedAccount_body_def
        table_try_catch)
qed

lemma stackset_table:
  "table (snd (handleStackSetInstanceStatusChange env d w)) = table w
   \<or> (\<exists>accountId stackSetStatus pk sk.
         table (snd (handleStackSetInstanceStatusChange env d w)) =
           update_item pk sk
             (if roleStatus stackSetStatus = JStr ''READY''
              then [(''PageSuiteRoleArn'', JStr (roleArn accountId)),
                    (''PageSuiteRoleStatus'', roleStatus stackSetStatus),
                    (''LastModified'', JStr (now env))]
              else [(''PageSuiteRoleStatus'', roleStatus stackSetStatus),
                    (''LastModified'', JStr (now env))]) (table w))"
proof (cases "handleStackSetInstanceStatusChange_extract d w")
  case (Pair r w1)
  have t: "table w1 = table w"
    using stackset_extract_table [of d w] Pair by simp
  show ?thesis
  proof (cases r)
    case (Inl e)
    then show ?thesis
      using Pair t by (simp add: handleStackSetInstanceStatusChange_def
          handleStackSetInstanceStatusChange_body_def table_try_catch)
  next
    case (Inr signal)
    show ?thesis
    proof (cases signal)
      case None
      then show ?thesis
        using Pair Inr t by (simp add: handleStackSetInstanceStatusChange_def
            handleStackSetInstanceStatusChange_body_def table_try_catch)
    next
      case (Some x)
      obtain a st where x: "x = (a, st)"
        by (cases x) auto
      have r: "table (snd (handleStackSetInstanceStatusChange env d w)) =
          table (snd (handleStackSetInstanceStatusChange_update env a st w1))"
        using Pair Inr Some x
        by (simp add: handleStackSetInstanceStatusChange_def
            handleStackSetInstanceStatusChange_body_def table_try_catch)
      show ?thesis
        unfolding r using stackset_update_table [of env a st w1] unfolding t by blast
    qed
  qed
qed

lemma invoke_keeps_distinct_keys:
  assumes "distinct_keys (table w)"
  shows "distinct_keys (table (snd (invoke env i w)))"
proof (cases i)
  case (ProvisionProduct ev)
  have "distinct_keys (table (snd (handleProvisionProduct env d v)))"
    if "table v = table w" for d v
    using provision_table [of env d v] assms that by (auto intro: distinct_keys_update_item)
  then show ?thesis
    using ProvisionProduct assms
    by (simp add: handler_provision_product_def Let_def table_console_log split: sum.splits)
next
  case (CreateManagedAccount ev)
  have "distinct_keys (table (snd (handleCreateManagedAccount env d v)))"
    if "table v = table w" for d v
    using account_table [of env d v] assms that by (auto intro: distinct_keys_update_item)
  then show ?thesis
    using CreateManagedAccount assms
    by (simp add: handler_create_account_def Let_def table_console_log split: sum.splits)
next
  case (StackSetStatusChange ev)
  have "distinct_keys (table (snd (handleStackSetInstanceStatusChange env d v)))"
    if "table v = table w" for d v
    using stackset_table [of env d v] assms that by (auto intro: distinct_keys_update_item)
  then show ?thesis
    using StackSetStatusChange assms
    by (simp add: handler_stackset_status_def Let_def table_console_log)
qed

lemma run_keeps_distinct_keys:
  "distinct_keys (table w) \<Longrightarrow> distinct_keys (table (run deliveries w))"
proof (induction deliveries arbitrary: w)
  case Nil
  then show ?case by simp
next
  case (Cons d rest)
  obtain env i where d: "d = (env, i)"
    by (cases d) auto
  show ?case
    unfolding d using Cons.IH [OF invoke_keeps_distinct_keys [OF Cons.prems, of env i]] by simp
qed

lemma main_keeps_distinct_keys:
  "distinct_keys (table w) \<Longrightarrow> distinct_keys (table (snd (main env PAGESUITE_ACCOUNT_ID w)))"
  by (auto simp: main_def dynamo_send_def console_log_def Let_def distinct_keys_def list_ex_iff
      split: sum.splits)

section \<open>The concrete events\<close>

lemma extract_provision_event:
  "tenant \<noteq> [] \<Longrightarrow> environment \<noteq> [] \<Longrightarrow> status \<noteq> [] \<Longrightarrow>
   handleProvisionProduct_extract
     (detail (provision_event tenant environment [tag ''AccountName'' n] status)) w =
       (Inr (Some (Some (JStr tenant), Some (JStr environment),
                   or_default (Some (JStr n)) (JStr []), JStr status)),
        w\<lparr>trace := trace w @ [ConsoleLog ''Tags found:'', ConsoleLog ''Extracted ps:accountId:'',
                              ConsoleLog ''Extracted ps:environment:'']\<rparr>)"
  by (simp add: handleProvisionProduct_extract_def provision_event_def tag_def js_defs
      console_log_def)

lemma extract_account_event:
  "n \<noteq> [] \<Longrightarrow> a \<noteq> [] \<Longrightarrow> state \<noteq> [] \<Longrightarrow>
   handleCreateManagedAccount_extract
     (detail (account_event [(''accountId'', JStr a), (''accountName'', JStr n)] state)) =
       Inr (JStr state, JStr a, JStr n)"
  by (simp add: handleCreateManagedAccount_extract_def account_event_def js_defs)

lemma extract_stackset_event:
  "length (split CHR '':'' stackId) \<ge> 5 \<Longrightarrow>
   handleStackSetInstanceStatusChange_extract (detail (stackset_event stackId status)) w =
     (Inr (Some (split CHR '':'' stackId ! 4, or_default (Some (JStr status)) (JStr []))), w)"
  by (cases stackId)
    (simp_all add: handleStackSetInstanceStatusChange_extract_def stackset_event_def js_defs)

lemma split_stack_111:
  "split CHR '':'' stack_111 =
     [''arn'', ''aws'', ''cloudformation'', ''eu-west-1'', ''111'', ''stack/StackSet-PageSuiteRole/1'']"
  by (simp add: stack_111_def)

lemma extract_stack_111:
  "status \<noteq> [] \<Longrightarrow>
   handleStackSetInstanceStatusChange_extract (detail (stackset_event stack_111 status)) w =
     (Inr (Some (''111'', JStr status)), w)"
  by (simp add: extract_stackset_event split_stack_111 or_default_def)

lemma split_stack_222:
  "split CHR '':'' stack_222 =
     [''arn'', ''aws'', ''cloudformation'', ''eu-west-1'', ''222'', ''stack/StackSet-PageSuiteRole/2'']"
  by (simp add: stack_222_def)

lemma thrown_bad_tags:
  "handleProvisionProduct_body env (detail bad_tags_event) w =
     (Inl TypeError, console_log ''Tags found:'' w)"
  by (simp add: handleProvisionProduct_body_def handleProvisionProduct_extract_def
      bad_tags_event_def js_defs)

lemma thrown_scan:
  "handleCreateManagedAccount_body (stormy t)
     (detail (account_event [(''accountId'', JStr ''111''), (''accountName'', JStr ''n1'')] ''SUCCEEDED'')) w =
     (Inl ServiceException, w\<lparr>trace := trace w @ [DynamoSend (ScanCommand (JStr ''n1''))]\<rparr>)"
  by (simp add: handleCreateManagedAccount_body_def extract_account_event
      handleCreateManagedAccount_update_def dynamo_send_def stormy_def Let_def)

lemma thrown_directory:
  "handleStackSetInstanceStatusChange_body (calm t)
     (detail (stackset_event stack_222 ''SUCCEEDED'')) w =
     (Inl ServiceException, w\<lparr>trace := trace w @ [OrganizationsSend ''222'']\<rparr>)"
  by (simp add: handleStackSetInstanceStatusChange_body_def extract_stackset_event
      split_stack_222 or_default_def
      handleStackSetInstanceStatusChange_update_def org_send_def calm_def directory_def)

section \<open>The scenario of the specification\<close>

text \<open>The three events of the scenario carry the signals the specification names.\<close>

lemma scenario_signals:
  "fst (handleProvisionProduct_extract (detail provision_requested_n1) w) =
     Inr (Some (Some (JStr ''t1''), Some (JStr ''Dev''), JStr ''n1'', JStr ''CREATED''))
   \<and> handleCreateManagedAccount_extract (detail account_created_111) =
     Inr (JStr ''SUCCEEDED'', JStr ''111'', JStr ''n1'')
   \<and> fst (handleStackSetInstanceStatusChange_extract (detail role_deployed_111) w) =
     Inr (Some (''111'', JStr ''SUCCEEDED''))"
  by (simp add: provision_requested_n1_def account_created_111_def role_deployed_111_def
      extract_provision_event extract_account_event extract_stack_111 or_default_def)

text \<open>
  C6. The record of tenant \<^verbatim>\<open>t1\<close> in \<^verbatim>\<open>Dev\<close> starts \<^verbatim>\<open>PENDING\<close>/\<^verbatim>\<open>PENDING\<close>. The
  provisioning request with raw status \<^verbatim>\<open>CREATED\<close> and name \<^verbatim>\<open>n1\<close> makes the account
  status \<^verbatim>\<open>IN_PROGRESS\<close> and the name \<^verbatim>\<open>n1\<close>; the creation of account \<^verbatim>\<open>111\<close> named \<^verbatim>\<open>n1\<close>
  with state \<^verbatim>\<open>SUCCEEDED\<close> makes the account id \<^verbatim>\<open>111\<close> and the account status \<^verbatim>\<open>READY\<close>;
  the role deployment in account \<^verbatim>\<open>111\<close> with status \<^verbatim>\<open>SUCCEEDED\<close> makes the role status
  \<^verbatim>\<open>READY\<close> and the role ARN \<^verbatim>\<open>arn:aws:iam::111:role/PageSuiteRole\<close>.
\<close>

theorem scenario_t1_Dev:
  "table (created ''t0'') =
     [\<lparr>PK = ''PS#t1'', SK = ''ENV#Dev'',
       AwsAccountStatus = Some (JStr ''PENDING''),
       AwsAccountId = Some (JStr []),
       AwsAccountName = Some (JStr []),
       PageSuiteRoleStatus = Some (JStr ''PENDING''),
       PageSuiteRoleArn = Some (JStr []),
       LastModified = Some (JStr ''t0'')\<rparr>]
   \<and> table (run (take 1 scenario) (created ''t0'')) =
     [\<lparr>PK = ''PS#t1'', SK = ''ENV#Dev'',
       AwsAccountStatus = Some (JStr ''IN_PROGRESS''),
       AwsAccountId = Some (JStr []),
       AwsAccountName = Some (JStr ''n1''),
       PageSuiteRoleStatus = Some (JStr ''PENDING''),
       PageSuiteRoleArn = Some (JStr []),
       LastModified = Some (JStr ''t1'')\<rparr>]
   \<and> table (run (take 2 scenario) (created ''t0'')) =
     [\<lparr>PK = ''PS#t1'', SK = ''ENV#Dev'',
       AwsAccountStatus = Some (JStr ''READY''),
       AwsAccountId = Some (JStr ''111''),
       AwsAccountName = Some (JStr ''n1''),
       PageSuiteRoleStatus = Some (JStr ''PENDING''),
       PageSuiteRoleArn = Some (JStr []),
       LastModified = Some (JStr ''t2'')\<rparr>]
   \<and> table (run scenario (created ''t0'')) =
     [\<lparr>PK = ''PS#t1'', SK = ''ENV#Dev'',
       AwsAccountStatus = Some (JStr ''READY''),
       AwsAccountId = Some (JStr ''111''),
       AwsAccountName = Some (JStr ''n1''),
       PageSuiteRoleStatus = Some (JStr ''READY''),
       PageSuiteRoleArn = Some (JStr ''arn:aws:iam::111:role/PageSuiteRole''),
       LastModified = Some (JStr ''t3'')\<rparr>]"
  by (simp add: js_defs store_defs provision_defs account_defs stackset_defs example_defs)

section \<open>Provisioning signals\<close>



section \<open>Creation is a conditional insert\<close>

text \<open>
  C8. When the table already holds a record under the key of tenant and environment, a
  further run of the creation script fails (its promise rejects, with DynamoDB's
  ConditionalCheckFailedException unless the service rejected the call outright) and the
  table, with the existing record, is unmodified.
\<close>

theorem creation_is_conditional:
  assumes "get_item (''PS#'' @ PAGESUITE_ACCOUNT_ID) (''ENV#'' @ ENVIRONMENT) (table w) = Some r"
  shows "(fst (main env PAGESUITE_ACCOUNT_ID w) = Inl ConditionalCheckFailedException
          \<or> fst (main env PAGESUITE_ACCOUNT_ID w) = Inl ServiceException)
       \<and> table (snd (main env PAGESUITE_ACCOUNT_ID w)) = table w
       \<and> get_item (''PS#'' @ PAGESUITE_ACCOUNT_ID) (''ENV#'' @ ENVIRONMENT)
           (table (snd (main env PAGESUITE_ACCOUNT_ID w))) = Some r"
proof -
  have "list_ex (\<lambda>i. PK i = ''PS#'' @ PAGESUITE_ACCOUNT_ID \<and> SK i = ''ENV#'' @ ENVIRONMENT) (table w)"
    using assms unfolding get_item_def by (rule find_list_ex)
  then have "(fst (main env PAGESUITE_ACCOUNT_ID w) = Inl ConditionalCheckFailedException
          \<or> fst (main env PAGESUITE_ACCOUNT_ID w) = Inl ServiceException)
       \<and> table (snd (main env PAGESUITE_ACCOUNT_ID w)) = table w"
    by (simp add: main_def dynamo_send_def console_log_def Let_def)
  with assms show ?thesis by simp
qed

theorem creation_is_conditional_witness:
  "get_item (''PS#'' @ ''t1'') (''ENV#'' @ ENVIRONMENT) (table (created ''t0'')) =
     Some \<lparr>PK = ''PS#t1'', SK = ''ENV#Dev'',
       AwsAccountStatus = Some (JStr ''PENDING''),
       AwsAccountId = Some (JStr []),
       AwsAccountName = Some (JStr []),
       PageSuiteRoleStatus = Some (JStr ''PENDING''),
       PageSuiteRoleArn = Some (JStr []),
       LastModified = Some (JStr ''t0'')\<rparr>
   \<and> fst (main (calm ''t9'') ''t1'' (created ''t0'')) = Inl ConditionalCheckFailedException
   \<and> table (snd (main (calm ''t9'') ''t1'' (created ''t0''))) = table (created ''t0'')"
proof -
  have h: "get_item (''PS#'' @ ''t1'') (''ENV#'' @ ENVIRONMENT) (table (created ''t0'')) =
     Some \<lparr>PK = ''PS#t1'', SK = ''ENV#Dev'',
       AwsAccountStatus = Some (JStr ''PENDING''),
       AwsAccountId = Some (JStr []),
       AwsAccountName = Some (JStr []),
       PageSuiteRoleStatus = Some (JStr ''PENDING''),
       PageSuiteRoleArn = Some (JStr []),
       LastModified = Some (JStr ''t0'')\<rparr>"
    by (simp add: store_defs example_defs)
  have f: "fst (main (calm ''t9'') ''t1'' (created ''t0'')) \<noteq> Inl ServiceException"
    by (simp add: store_defs example_defs)
  show ?thesis
    using creation_is_conditional [OF h, of "calm ''t9''"] h f by simp
qed

section \<open>Malformed stack identifiers\<close>

text \<open>
  C7. A StackSet status change whose \<^verbatim>\<open>stack-id\<close> is a string of fewer than five
  colon-delimited parts (or is missing, which the code reads as the empty string) is
  reported with \<^verbatim>\<open>Invalid stack-id format\<close> and dropped: the invocation resolves, and
  its only effects are console output. No command reaches the table, which stays as it
  was, and the directory is not asked.
\<close>

theorem malformed_stack_id:
  assumes "member eventDetail ''stack-id'' = Inr sid"
      and "or_default sid (JStr []) = JStr s"
      and "length (split CHR '':'' s) < 5"
      and "detail event = eventDetail"
      and "source event = ''aws.cloudformation''"
      and "detail_type event = ''CloudFormation StackSet StackInstance Status Change''"
  shows "handleStackSetInstanceStatusChange env eventDetail w =
           (Inr (), w\<lparr>trace := trace w @ [ConsoleError ''Invalid stack-id format:'']\<rparr>)
       \<and> handler_stackset_status env event w =
           (Inr (), w\<lparr>trace := trace w @
              [ConsoleLog ''Event received:'',
               ConsoleLog ''CloudFormation: StackSet instance status change'',
               ConsoleError ''Invalid stack-id format:'']\<rparr>)"
proof -
  obtain sd where sd: "member eventDetail ''status-details'' = Inr sd"
    using member_defined [OF assms(1)] by blast
  have extr: "handleStackSetInstanceStatusChange_extract eventDetail v =
      (Inr None, console_error ''Invalid stack-id format:'' v)" for v
    using assms(1-3) sd by (simp add: handleStackSetInstanceStatusChange_extract_def Let_def)
  have inner: "handleStackSetInstanceStatusChange env eventDetail v =
      (Inr (), console_error ''Invalid stack-id format:'' v)" for v
    by (simp add: handleStackSetInstanceStatusChange_def
        handleStackSetInstanceStatusChange_body_def extr try_catch_returned)
  show ?thesis
    using assms(4-6)
    by (simp add: inner handler_stackset_status_def Let_def console_error_def console_log_def)
qed

theorem malformed_stack_id_witness:
  "member (detail (stackset_event ''arn:aws:cloudformation'' ''SUCCEEDED'')) ''stack-id'' =
     Inr (Some (JStr ''arn:aws:cloudformation''))
   \<and> length (split CHR '':'' ''arn:aws:cloudformation'') = 3
   \<and> handler_stackset_status (calm ''t4'')
        (stackset_event ''arn:aws:cloudformation'' ''SUCCEEDED'') ready_world =
       (Inr (), ready_world\<lparr>trace := trace ready_world @
          [ConsoleLog ''Event received:'',
           ConsoleLog ''CloudFormation: StackSet instance status change'',
           ConsoleError ''Invalid stack-id format:'']\<rparr>)"
proof -
  let ?ev = "stackset_event ''arn:aws:cloudformation'' ''SUCCEEDED''"
  have h1: "member (detail ?ev) ''stack-id'' = Inr (Some (JStr ''arn:aws:cloudformation''))"
    by (simp add: stackset_event_def)
  have h2: "or_default (Some (JStr ''arn:aws:cloudformation'')) (JStr []) = JStr ''arn:aws:cloudformation''"
    by (simp add: or_default_def)
  have h3: "length (split CHR '':'' ''arn:aws:cloudformation'') < 5"
    by simp
  have h5: "source ?ev = ''aws.cloudformation''"
    by (simp add: stackset_event_def)
  have h6: "detail_type ?ev = ''CloudFormation StackSet StackInstance Status Change''"
    by (simp add: stackset_event_def)
  show ?thesis
    using malformed_stack_id [OF h1 h2 h3 refl h5 h6, of "calm ''t4''" ready_world] h1
    by simp
qed

section \<open>Role deployment signals\<close>

text \<open>
  C2. A role deployment signal whose status maps to \<^verbatim>\<open>READY\<close>, correlated to a record
  whose role status is already \<^verbatim>\<open>READY\<close> with a non-empty role ARN, writes nothing: after
  the directory lookup and the one scan the invocation logs and returns. When the first
  page of the scan holds the record, the log is the skip; when it does not, the log is
  that no item was found. Either way no UpdateCommand is sent and the table is unchanged.
\<close>

theorem role_deployed_idempotent:
  assumes "handleStackSetInstanceStatusChange_extract eventDetail w =
             (Inr (Some (accountId, stackSetStatus)), w1)"
      and "roleStatus stackSetStatus = JStr ''READY''"
      and "describeAccount env accountId = Inr Account"
      and "account_name Account = Some name"
      and "\<not> rejects env (ScanCommand (JStr name))"
      and "filter (\<lambda>i. AwsAccountName i = Some (JStr name)) (table w) = [item]"
      and "PageSuiteRoleStatus item = Some (JStr ''READY'')"
      and "truthy (PageSuiteRoleArn item)"
  shows "handleStackSetInstanceStatusChange env eventDetail w =
           (Inr (), w\<lparr>trace := trace w @
              [OrganizationsSend accountId,
               DynamoSend (ScanCommand (JStr name)),
               ConsoleLog (if firstPage env (table w) item
                           then ''PageSuiteRole already deployed, skipping update''
                           else ''No DynamoDB item found for account name:'')]\<rparr>)
       \<and> table (snd (handleStackSetInstanceStatusChange env eventDetail w)) = table w"
proof -
  have w1: "w1 = w"
    using assms(1) by (rule stackset_extract_world)
  have page: "filter (\<lambda>i. firstPage env (table w) i \<and> AwsAccountName i = Some (JStr name)) (table w) =
      (if firstPage env (table w) item then [item] else [])"
    using assms(6) by (rule filter_first_page)
  have "handleStackSetInstanceStatusChange_update env accountId stackSetStatus w =
      (Inr (), w\<lparr>trace := trace w @
              [OrganizationsSend accountId,
               DynamoSend (ScanCommand (JStr name)),
               ConsoleLog (if firstPage env (table w) item
                           then ''PageSuiteRole already deployed, skipping update''
                           else ''No DynamoDB item found for account name:'')]\<rparr>)"
  proof (cases "firstPage env (table w) item")
    case True
    then have "filter (\<lambda>i. firstPage env (table w) i \<and> AwsAccountName i = Some (JStr name)) (table w)
        = [item]"
      using page by simp
    then show ?thesis
      using assms(2,7,8) True
      by (simp add: stackset_update_correlated [OF assms(3-5)] console_log_def)
  next
    case False
    then have "filter (\<lambda>i. firstPage env (table w) i \<and> AwsAccountName i = Some (JStr name)) (table w)
        = []"
      using page by simp
    then show ?thesis
      using False by (simp add: stackset_update_not_found [OF assms(3-5)])
  qed
  then show ?thesis
    using assms(1) w1
    by (simp add: handleStackSetInstanceStatusChange_def
        handleStackSetInstanceStatusChange_body_def try_catch_returned)
qed

theorem role_deployed_idempotent_witness:
  "handleStackSetInstanceStatusChange (calm ''t4'')
     (detail (stackset_event stack_111 ''SUCCEEDED'')) ready_world =
       (Inr (), ready_world\<lparr>trace := trace ready_world @
          [OrganizationsSend ''111'',
           DynamoSend (ScanCommand (JStr ''n1'')),
           ConsoleLog ''PageSuiteRole already deployed, skipping update'']\<rparr>)
   \<and> table (snd (handleStackSetInstanceStatusChange (calm ''t4'')
        (detail (stackset_event stack_111 ''SUCCEEDED'')) ready_world)) = [ready_record ''t3'']"
proof -
  have h1: "handleStackSetInstanceStatusChange_extract
      (detail (stackset_event stack_111 ''SUCCEEDED'')) ready_world =
        (Inr (Some (''111'', JStr ''SUCCEEDED'')), ready_world)"
    by (simp add: extract_stack_111)
  have h2: "roleStatus (JStr ''SUCCEEDED'') = JStr ''READY''"
    by (simp add: roleStatus_def)
  have h3: "describeAccount (calm ''t4'') ''111'' = Inr (Some \<lparr>Name = Some ''n1''\<rparr>)"
    by (simp add: calm_def directory_def)
  have h4: "account_name (Some \<lparr>Name = Some ''n1''\<rparr>) = Some ''n1''"
    by (simp add: account_name_def)
  have h5: "\<not> rejects (calm ''t4'') (ScanCommand (JStr ''n1''))"
    by (simp add: calm_def)
  have h6: "filter (\<lambda>i. AwsAccountName i = Some (JStr ''n1'')) (table ready_world) =
      [ready_record ''t3'']"
    by (simp add: ready_world_def ready_record_def)
  have h7: "PageSuiteRoleStatus (ready_record ''t3'') = Some (JStr ''READY'')"
    by (simp add: ready_record_def)
  have h8: "truthy (PageSuiteRoleArn (ready_record ''t3''))"
    by (simp add: ready_record_def)
  have p: "firstPage (calm ''t4'') (table ready_world) (ready_record ''t3'')"
    by (simp add: calm_def)
  show ?thesis
    using role_deployed_idempotent [OF h1 h2 h3 h4 h5 h6 h7 h8] p
    by (simp add: ready_world_def)
qed

text \<open>
  C9. A role deployment signal whose status does not map to \<^verbatim>\<open>READY\<close>, correlated to
  exactly one record, changes the role status and the modification time of that record
  and nothing else (and changes nothing when the update is rejected, or when the first
  page of the scan does not hold the record): every other record is as it was, and the
  keys, the role ARN, the account id, the account name and the account status of every
  record are unchanged.
\<close>

theorem role_status_frame:
  assumes "handleStackSetInstanceStatusChange_extract eventDetail w =
             (Inr (Some (accountId, stackSetStatus)), w1)"
      and "roleStatus stackSetStatus \<noteq> JStr ''READY''"
      and "describeAccount env accountId = Inr Account"
      and "account_name Account = Some name"
      and "\<not> rejects env (ScanCommand (JStr name))"
      and "filter (\<lambda>i. AwsAccountName i = Some (JStr name)) (table w) = [item]"
      and "distinct_keys (table w)"
  shows "table (snd (handleStackSetInstanceStatusChange env eventDetail w)) =
           (if rejects env
                 (UpdateCommand (PK item) (SK item)
                    [(''PageSuiteRoleStatus'', roleStatus stackSetStatus),
                     (''LastModified'', JStr (now env))])
               \<or> \<not> firstPage env (table w) item
            then table w
            else map (\<lambda>j. if j = item
                          then item\<lparr>PageSuiteRoleStatus := Some (roleStatus stackSetStatus),
                                    LastModified := Some (JStr (now env))\<rparr>
                          else j) (table w))
       \<and> map PK (table (snd (handleStackSetInstanceStatusChange env eventDetail w))) = map PK (table w)
       \<and> map SK (table (snd (handleStackSetInstanceStatusChange env eventDetail w))) = map SK (table w)
       \<and> map PageSuiteRoleArn (table (snd (handleStackSetInstanceStatusChange env eventDetail w)))
           = map PageSuiteRoleArn (table w)
       \<and> map AwsAccountId (table (snd (handleStackSetInstanceStatusChange env eventDetail w)))
           = map AwsAccountId (table w)
       \<and> map AwsAccountName (table (snd (handleStackSetInstanceStatusChange env eventDetail w)))
           = map AwsAccountName (table w)
       \<and> map AwsAccountStatus (table (snd (handleStackSetInstanceStatusChange env eventDetail w)))
           = map AwsAccountStatus (table w)"
proof -
  let ?sets = "[(''PageSuiteRoleStatus'', roleStatus stackSetStatus),
                (''LastModified'', JStr (now env))]"
  let ?item' = "item\<lparr>PageSuiteRoleStatus := Some (roleStatus stackSetStatus),
                       LastModified := Some (JStr (now env))\<rparr>"
  let ?new = "map (\<lambda>j. if j = item then ?item' else j) (table w)"
  have w1: "w1 = w"
    using assms(1) by (rule stackset_extract_world)
  have "item \<in> set (filter (\<lambda>i. AwsAccountName i = Some (JStr name)) (table w))"
    using assms(6) by simp
  then have mem: "item \<in> set (table w)"
    by simp
  have upd: "update_item (PK item) (SK item) ?sets (table w) = ?new"
    by (simp add: update_item_present [OF assms(7) mem] set_attribute_def)
  have page: "filter (\<lambda>i. firstPage env (table w) i \<and> AwsAccountName i = Some (JStr name)) (table w) =
      (if firstPage env (table w) item then [item] else [])"
    using assms(6) by (rule filter_first_page)
  have handler: "table (snd (handleStackSetInstanceStatusChange env eventDetail w)) =
      table (snd (handleStackSetInstanceStatusChange_update env accountId stackSetStatus w))"
    using assms(1) w1
    by (simp add: handleStackSetInstanceStatusChange_def
        handleStackSetInstanceStatusChange_body_def table_try_catch)
  have tbl: "table (snd (handleStackSetInstanceStatusChange env eventDetail w)) =
      (if rejects env (UpdateCommand (PK item) (SK item) ?sets) \<or> \<not> firstPage env (table w) item
       then table w else ?new)"
  proof (cases "firstPage env (table w) item")
    case True
    then have "filter (\<lambda>i. firstPage env (table w) i \<and> AwsAccountName i = Some (JStr name)) (table w)
        = [item]"
      using page by simp
    then show ?thesis
      unfolding handler using assms(2) True upd
      by (simp add: stackset_update_correlated [OF assms(3-5)] dynamo_send_def Let_def
          table_console_log split: sum.splits)
  next
    case False
    then have "filter (\<lambda>i. firstPage env (table w) i \<and> AwsAccountName i = Some (JStr name)) (table w)
        = []"
      using page by simp
    then show ?thesis
      unfolding handler using False
      by (simp add: stackset_update_not_found [OF assms(3-5)])
  qed
  have frame: "map f ?new = map f (table w)" if "f ?item' = f item" for f :: "item \<Rightarrow> 'a"
    using that by (induction "table w") auto
  show ?thesis
    unfolding tbl by (simp add: frame)
qed

theorem role_status_frame_witness:
  "roleStatus (JStr ''FAILED'') \<noteq> JStr ''READY''
   \<and> distinct_keys (table ready_world)
   \<and> table (snd (handleStackSetInstanceStatusChange (calm ''t4'')
        (detail (stackset_event stack_111 ''FAILED'')) ready_world)) =
       [(ready_record ''t3'')\<lparr>PageSuiteRoleStatus := Some (JStr ''FAILED''),
                               LastModified := Some (JStr ''t4'')\<rparr>]"
proof -
  have h1: "handleStackSetInstanceStatusChange_extract
      (detail (stackset_event stack_111 ''FAILED'')) ready_world =
        (Inr (Some (''111'', JStr ''FAILED'')), ready_world)"
    by (simp add: extract_stack_111)
  have h2: "roleStatus (JStr ''FAILED'') \<noteq> JStr ''READY''"
    by (simp add: roleStatus_def)
  have h3: "describeAccount (calm ''t4'') ''111'' = Inr (Some \<lparr>Name = Some ''n1''\<rparr>)"
    by (simp add: calm_def directory_def)
  have h4: "account_name (Some \<lparr>Name = Some ''n1''\<rparr>) = Some ''n1''"
    by (simp add: account_name_def)
  have h5: "\<not> rejects (calm ''t4'') (ScanCommand (JStr ''n1''))"
    by (simp add: calm_def)
  have h6: "filter (\<lambda>i. AwsAccountName i = Some (JStr ''n1'')) (table ready_world) =
      [ready_record ''t3'']"
    by (simp add: ready_world_def ready_record_def)
  have h7: "distinct_keys (table ready_world)"
    by (simp add: distinct_keys_def ready_world_def)
  show ?thesis
    using role_status_frame [OF h1 h2 h3 h4 h5 h6 h7] h2 h7
    by (simp add: ready_world_def calm_def roleStatus_def)
qed

section \<open>Records that share an account name\<close>

text \<open>
  When the first page of the scan holds two or more records with the signal's account
  name, both handlers report \<^verbatim>\<open>ERROR: Found ... items\<close> on the error console and write
  nothing. (The account creation handler inserts the account name in the message, so the
  name must convert to a string, as every string does.)
\<close>

lemma ambiguous_on_first_page:
  assumes "2 \<le> length (filter (\<lambda>i. firstPage env (table w) i \<and> AwsAccountName i = Some accountName)
                          (table w))"
      and "\<not> rejects env (ScanCommand accountName)"
  shows "(handleCreateManagedAccount_extract eventDetail = Inr (state, awsAccountId, accountName)
          \<and> interpolate [Some accountName] = Inr ()
          \<longrightarrow> handleCreateManagedAccount env eventDetail w =
                (Inr (), w\<lparr>trace := trace w @
                   [DynamoSend (ScanCommand accountName),
                    ConsoleError ''ERROR: Found items for account name, expected exactly 1'']\<rparr>))
       \<and> (handleStackSetInstanceStatusChange_extract eventDetail' w =
             (Inr (Some (accountId, stackSetStatus)), w1)
          \<and> describeAccount env accountId = Inr Account
          \<and> account_name Account = Some name
          \<and> accountName = JStr name
          \<longrightarrow> handleStackSetInstanceStatusChange env eventDetail' w =
                (Inr (), w\<lparr>trace := trace w @
                   [OrganizationsSend accountId,
                    DynamoSend (ScanCommand accountName),
                    ConsoleError ''ERROR: Found items for account name, expected exactly 1'']\<rparr>))"
proof (intro conjI impI)
  assume a: "handleCreateManagedAccount_extract eventDetail = Inr (state, awsAccountId, accountName)
    \<and> interpolate [Some accountName] = Inr ()"
  then show "handleCreateManagedAccount env eventDetail w =
                (Inr (), w\<lparr>trace := trace w @
                   [DynamoSend (ScanCommand accountName),
                    ConsoleError ''ERROR: Found items for account name, expected exactly 1'']\<rparr>)"
    using assms
    by (auto simp: handleCreateManagedAccount_def handleCreateManagedAccount_body_def
        handleCreateManagedAccount_update_def dynamo_send_def console_error_def
        try_catch_returned Let_def)
next
  assume a: "handleStackSetInstanceStatusChange_extract eventDetail' w =
             (Inr (Some (accountId, stackSetStatus)), w1)
          \<and> describeAccount env accountId = Inr Account
          \<and> account_name Account = Some name
          \<and> accountName = JStr name"
  then have w1: "w1 = w"
    using stackset_extract_world by blast
  have "handleStackSetInstanceStatusChange_update env accountId stackSetStatus w =
      (Inr (), w\<lparr>trace := trace w @
                   [OrganizationsSend accountId,
                    DynamoSend (ScanCommand accountName),
                    ConsoleError ''ERROR: Found items for account name, expected exactly 1'']\<rparr>)"
    using a assms
    by (auto simp: handleStackSetInstanceStatusChange_update_def org_send_def dynamo_send_def
        console_error_def Let_def)
  then show "handleStackSetInstanceStatusChange env eventDetail' w =
                (Inr (), w\<lparr>trace := trace w @
                   [OrganizationsSend accountId,
                    DynamoSend (ScanCommand accountName),
                    ConsoleError ''ERROR: Found items for account name, expected exactly 1'']\<rparr>)"
    using a w1
    by (simp add: handleStackSetInstanceStatusChange_def
        handleStackSetInstanceStatusChange_body_def try_catch_returned)
qed

text \<open>
  When the first page holds exactly one of them, the account creation handler takes it
  for the record of the signal and sends the update, however many records of the table
  share the name.
\<close>

lemma one_namesake_on_first_page:
  assumes "handleCreateManagedAccount_extract eventDetail = Inr (state, awsAccountId, accountName)"
      and "filter (\<lambda>i. firstPage env (table w) i \<and> AwsAccountName i = Some accountName) (table w)
             = [item]"
      and "\<not> rejects env (ScanCommand accountName)"
      and "\<not> rejects env
             (UpdateCommand (PK item) (SK item)
                [(''AwsAccountId'', awsAccountId),
                 (''AwsAccountStatus'', if state = JStr ''SUCCEEDED'' then JStr ''READY'' else state),
                 (''LastModified'', JStr (now env))])"
  shows "table (snd (handleCreateManagedAccount env eventDetail w)) =
           update_item (PK item) (SK item)
             [(''AwsAccountId'', awsAccountId),
              (''AwsAccountStatus'', if state = JStr ''SUCCEEDED'' then JStr ''READY'' else state),
              (''LastModified'', JStr (now env))] (table w)"
  using assms
  by (simp add: handleCreateManagedAccount_def handleCreateManagedAccount_body_def
      table_try_catch handleCreateManagedAccount_update_def dynamo_send_def Let_def
      table_console_log split: sum.splits)

text \<open>
  C3, at a table larger than one page of a Scan. Two records share the account name
  \<^verbatim>\<open>n1\<close>; the first page holds the record of tenant \<^verbatim>\<open>t1\<close> and not the record of tenant
  \<^verbatim>\<open>t2\<close>. The account creation signal for \<^verbatim>\<open>n1\<close> and the role deployment signal for the
  account named \<^verbatim>\<open>n1\<close> each see one item, report no error, and write to the record of
  tenant \<^verbatim>\<open>t1\<close>.
\<close>

theorem namesake_beyond_first_page:
  "length (filter (\<lambda>i. AwsAccountName i = Some (JStr ''n1'')) (table twins)) = 2
   \<and> handleCreateManagedAccount (paged ''t4'')
       (detail (account_event [(''accountId'', JStr ''222''), (''accountName'', JStr ''n1'')]
                  ''FAILED'')) twins =
     (Inr (),
      \<lparr>table =
         [(ready_record ''t3'')\<lparr>AwsAccountStatus := Some (JStr ''FAILED''),
                                 AwsAccountId := Some (JStr ''222''),
                                 LastModified := Some (JStr ''t4'')\<rparr>,
          (ready_record ''t3'')\<lparr>PK := ''PS#t2''\<rparr>],
       trace =
         [DynamoSend (ScanCommand (JStr ''n1'')),
          DynamoSend (UpdateCommand ''PS#t1'' ''ENV#Dev''
            [(''AwsAccountId'', JStr ''222''),
             (''AwsAccountStatus'', JStr ''FAILED''),
             (''LastModified'', JStr ''t4'')]),
          ConsoleLog ''Updated DynamoDB for'',
          ConsoleLog ''Control Tower account creation processed:'']\<rparr>)
   \<and> handleStackSetInstanceStatusChange (paged ''t4'')
       (detail (stackset_event stack_111 ''FAILED'')) twins =
     (Inr (),
      \<lparr>table =
         [(ready_record ''t3'')\<lparr>PageSuiteRoleStatus := Some (JStr ''FAILED''),
                                 LastModified := Some (JStr ''t4'')\<rparr>,
          (ready_record ''t3'')\<lparr>PK := ''PS#t2''\<rparr>],
       trace =
         [OrganizationsSend ''111'',
          DynamoSend (ScanCommand (JStr ''n1'')),
          DynamoSend (UpdateCommand ''PS#t1'' ''ENV#Dev''
            [(''PageSuiteRoleStatus'', JStr ''FAILED''),
             (''LastModified'', JStr ''t4'')]),
          ConsoleLog ''Updated DynamoDB for'',
          ConsoleLog ''StackSet instance status processed:'']\<rparr>)"
  by (simp add: all_defs)

section \<open>The role ARN and the role status\<close>

lemma provision_sets_role:
  "ready_has_roleArn i \<Longrightarrow>
   ready_has_roleArn (set_attributes
     [(''AwsAccountStatus'', st), (''AwsAccountName'', n), (''LastModified'', t)] i)"
  by (simp add: ready_has_roleArn_def set_attribute_def)

lemma account_sets_role:
  "ready_has_roleArn i \<Longrightarrow>
   ready_has_roleArn (set_attributes
     [(''AwsAccountId'', a), (''AwsAccountStatus'', st), (''LastModified'', t)] i)"
  by (simp add: ready_has_roleArn_def set_attribute_def)

lemma stackset_sets_role:
  "ready_has_roleArn (set_attributes
     (if rs = JStr ''READY''
      then [(''PageSuiteRoleArn'', JStr (roleArn a)), (''PageSuiteRoleStatus'', rs),
            (''LastModified'', t)]
      else [(''PageSuiteRoleStatus'', rs), (''LastModified'', t)]) i)"
  by (simp add: ready_has_roleArn_def set_attribute_def roleArn_def)

lemma ready_has_roleArn_fresh: "ready_has_roleArn (new_item pk sk)"
  by (simp add: ready_has_roleArn_def new_item_def)

lemma provision_keeps_ready:
  assumes "list_all ready_has_roleArn (table w)"
  shows "list_all ready_has_roleArn (table (snd (handleProvisionProduct env d w)))"
  using provision_table [of env d w] assms
  by (auto intro!: list_all_update_item provision_sets_role ready_has_roleArn_fresh)

lemma account_keeps_ready:
  assumes "list_all ready_has_roleArn (table w)"
  shows "list_all ready_has_roleArn (table (snd (handleCreateManagedAccount env d w)))"
  using account_table [of env d w] assms
  by (auto intro!: list_all_update_item account_sets_role ready_has_roleArn_fresh)

lemma stackset_keeps_ready:
  assumes "list_all ready_has_roleArn (table w)"
  shows "list_all ready_has_roleArn (table (snd (handleStackSetInstanceStatusChange env d w)))"
proof -
  consider "table (snd (handleStackSetInstanceStatusChange env d w)) = table w"
    | a st pk sk where "table (snd (handleStackSetInstanceStatusChange env d w)) =
           update_item pk sk
             (if roleStatus st = JStr ''READY''
              then [(''PageSuiteRoleArn'', JStr (roleArn a)),
                    (''PageSuiteRoleStatus'', roleStatus st),
                    (''LastModified'', JStr (now env))]
              else [(''PageSuiteRoleStatus'', roleStatus st),
                    (''LastModified'', JStr (now env))]) (table w)"
    using stackset_table [of env d w] by blast
  then show ?thesis
  proof cases
    case 1
    then show ?thesis using assms by simp
  next
    case 2
    show ?thesis
      unfolding 2 using assms
      by (intro list_all_update_item stackset_sets_role)
  qed
qed

lemma main_keeps_ready:
  assumes "list_all ready_has_roleArn (table w)"
  shows "list_all ready_has_roleArn (table (snd (main env PAGESUITE_ACCOUNT_ID w)))"
  using assms
  by (auto simp: main_def dynamo_send_def console_log_def Let_def ready_has_roleArn_def
      split: sum.splits)

lemma invoke_keeps_ready:
  assumes "list_all ready_has_roleArn (table w)"
  shows "list_all ready_has_roleArn (table (snd (invoke env i w)))"
proof (cases i)
  case (ProvisionProduct ev)
  then show ?thesis
    using assms provision_keeps_ready [of "console_log ''Service Catalog: Product provisioning started''
        (console_log ''Event received:'' w)" env "detail ev"]
    by (simp add: handler_provision_product_def Let_def table_console_log split: sum.splits)
next
  case (CreateManagedAccount ev)
  then show ?thesis
    using assms account_keeps_ready [of "console_log ''Control Tower: Account creation completed''
        (console_log ''Event received:'' w)" env "detail ev"]
    by (simp add: handler_create_account_def Let_def table_console_log split: sum.splits)
next
  case (StackSetStatusChange ev)
  then show ?thesis
    using assms stackset_keeps_ready [of "console_log ''CloudFormation: StackSet instance status change''
        (console_log ''Event received:'' w)" env "detail ev"]
    by (simp add: handler_stackset_status_def Let_def table_console_log)
qed

text \<open>
  C1, as amended. Along every sequence of deliveries to the three handlers, from a table
  in which every record with role status \<^verbatim>\<open>READY\<close> has a non-empty role ARN, every record
  with role status \<^verbatim>\<open>READY\<close> has a non-empty role ARN after each delivery. The converse
  is not kept: a status other than \<^verbatim>\<open>SUCCEEDED\<close> and \<^verbatim>\<open>READY\<close> replaces the role status
  and leaves an ARN written earlier where it is.
\<close>

theorem ready_role_has_arn:
  assumes "list_all ready_has_roleArn (table w)"
  shows "list_all ready_has_roleArn (table (run deliveries w))"
  using assms
proof (induction deliveries arbitrary: w)
  case Nil
  then show ?case by simp
next
  case (Cons d rest)
  obtain env i where d: "d = (env, i)"
    by (cases d) auto
  show ?case
    unfolding d using Cons.IH [OF invoke_keeps_ready [OF Cons.prems, of env i]] by simp
qed

theorem ready_role_has_arn_witness:
  "list_all ready_has_roleArn (table (created ''t0''))
   \<and> list_all ready_has_roleArn (table (run (scenario @ [role_failed]) (created ''t0'')))"
proof -
  have h: "list_all ready_has_roleArn (table (created ''t0''))"
    by (simp add: store_defs example_defs ready_has_roleArn_def)
  show ?thesis
    using ready_role_has_arn [OF h, of "scenario @ [role_failed]"] h by simp
qed

text \<open>
  Against C1 as the specification states it: the record of the scenario satisfies the
  equivalence when created and when its role is deployed; it then receives a status
  change to \<^verbatim>\<open>FAILED\<close>, after which its role status is \<^verbatim>\<open>FAILED\<close> and its role ARN is
  still there.
\<close>

theorem roleArn_iff_ready_counterexample:
  "list_all roleArn_iff_ready (table (created ''t0''))
   \<and> list_all roleArn_iff_ready (table (run scenario (created ''t0'')))
   \<and> \<not> list_all roleArn_iff_ready (table (run (scenario @ [role_failed]) (created ''t0'')))
   \<and> map PageSuiteRoleStatus (table (run (scenario @ [role_failed]) (created ''t0''))) =
       [Some (JStr ''FAILED'')]
   \<and> map PageSuiteRoleArn (table (run (scenario @ [role_failed]) (created ''t0''))) =
       [Some (JStr ''arn:aws:iam::111:role/PageSuiteRole'')]"
  by (simp add: all_defs role_failed_def roleArn_iff_ready_def)

section \<open>The account id and the account name\<close>

lemma along_refl: "(\<And>i. R i i) \<Longrightarrow> along R tbl tbl"
  by (simp add: along_def list_all2_refl)

lemma along_update_item:
  assumes "\<And>i. R i i" and "\<And>i. R i (set_attributes sets i)"
  shows "along R tbl (update_item pk sk sets tbl)"
  using assms by (induction tbl) (auto simp: along_def list_all2_refl)

lemma same_on_refl: "same_on f i i"
  by (simp add: same_on_def)

lemma stays_nonempty_refl: "stays_nonempty f i i"
  by (simp add: stays_nonempty_def)

lemma provision_sets_id:
  "same_on AwsAccountId i (set_attributes
     [(''AwsAccountStatus'', st), (''AwsAccountName'', n), (''LastModified'', t)] i)"
  by (simp add: same_on_def set_attribute_def)

lemma provision_sets_name:
  "truthy (Some n) \<Longrightarrow>
   stays_nonempty AwsAccountName i (set_attributes
     [(''AwsAccountStatus'', st), (''AwsAccountName'', n), (''LastModified'', t)] i)"
  by (simp add: stays_nonempty_def set_attribute_def)

lemma account_sets_name:
  "same_on AwsAccountName i (set_attributes
     [(''AwsAccountId'', a), (''AwsAccountStatus'', st), (''LastModified'', t)] i)"
  by (simp add: same_on_def set_attribute_def)

lemma account_sets_id:
  "truthy (Some a) \<Longrightarrow>
   stays_nonempty AwsAccountId i (set_attributes
     [(''AwsAccountId'', a), (''AwsAccountStatus'', st), (''LastModified'', t)] i)"
  by (simp add: stays_nonempty_def set_attribute_def)

lemma stackset_sets_id:
  "same_on AwsAccountId i (set_attributes
     (if rs = JStr ''READY''
      then [(''PageSuiteRoleArn'', arn), (''PageSuiteRoleStatus'', rs), (''LastModified'', t)]
      else [(''PageSuiteRoleStatus'', rs), (''LastModified'', t)]) i)"
  by (simp add: same_on_def set_attribute_def)

lemma stackset_sets_name:
  "same_on AwsAccountName i (set_attributes
     (if rs = JStr ''READY''
      then [(''PageSuiteRoleArn'', arn), (''PageSuiteRoleStatus'', rs), (''LastModified'', t)]
      else [(''PageSuiteRoleStatus'', rs), (''LastModified'', t)]) i)"
  by (simp add: same_on_def set_attribute_def)

lemma stackset_keeps_id_name:
  "along (same_on AwsAccountId) (table w)
     (table (snd (handleStackSetInstanceStatusChange env d w)))
   \<and> along (same_on AwsAccountName) (table w)
     (table (snd (handleStackSetInstanceStatusChange env d w)))"
proof -
  consider "table (snd (handleStackSetInstanceStatusChange env d w)) = table w"
    | a st pk sk where "table (snd (handleStackSetInstanceStatusChange env d w)) =
           update_item pk sk
             (if roleStatus st = JStr ''READY''
              then [(''PageSuiteRoleArn'', JStr (roleArn a)),
                    (''PageSuiteRoleStatus'', roleStatus st),
                    (''LastModified'', JStr (now env))]
              else [(''PageSuiteRoleStatus'', roleStatus st),
                    (''LastModified'', JStr (now env))]) (table w)"
    using stackset_table [of env d w] by blast
  then show ?thesis
  proof cases
    case 1
    then show ?thesis by (simp add: along_refl same_on_refl)
  next
    case 2
    show ?thesis
      unfolding 2
      by (intro conjI along_update_item same_on_refl stackset_sets_id stackset_sets_name)
  qed
qed

lemma provision_keeps_id:
  "along (same_on AwsAccountId) (table w) (table (snd (handleProvisionProduct env d w)))"
  using provision_table [of env d w]
  by (auto simp: along_refl same_on_refl intro!: along_update_item provision_sets_id)

lemma account_keeps_name:
  "along (same_on AwsAccountName) (table w) (table (snd (handleCreateManagedAccount env d w)))"
  using account_table [of env d w]
  by (auto simp: along_refl same_on_refl intro!: along_update_item account_sets_name)

lemma provision_keeps_name:
  assumes "\<forall>p e n raw w1.
             handleProvisionProduct_extract d w = (Inr (Some (p, e, n, raw)), w1) \<longrightarrow> truthy (Some n)"
  shows "along (stays_nonempty AwsAccountName) (table w)
           (table (snd (handleProvisionProduct env d w)))"
  using provision_table [of env d w] assms
  by (auto simp: along_refl stays_nonempty_refl
      intro!: along_update_item provision_sets_name stays_nonempty_refl)

lemma account_keeps_id:
  assumes "\<forall>state aid name.
             handleCreateManagedAccount_extract d = Inr (state, aid, name) \<longrightarrow> truthy (Some aid)"
  shows "along (stays_nonempty AwsAccountId) (table w)
           (table (snd (handleCreateManagedAccount env d w)))"
  using account_table [of env d w] assms
  by (auto simp: along_refl stays_nonempty_refl
      intro!: along_update_item account_sets_id stays_nonempty_refl)

text \<open>
  C5, as amended. No transition clears a non-empty account id or account name or
  overwrites it with an empty value, with two exceptions: a provisioning signal whose
  account name is empty writes the empty string to the account name, and an account
  creation signal whose account id is empty writes the empty string to the account id.
  In full: a role deployment leaves the account id and the account name of every record
  as they are; a provisioning event leaves every account id as it is, and every
  non-empty account name non-empty unless it carries a signal with an empty name; an
  account creation event leaves every account name as it is, and every non-empty account
  id non-empty unless it carries a signal with an empty id.
\<close>

theorem account_id_and_name_kept:
  "along (same_on AwsAccountId) (table w)
     (table (snd (handleStackSetInstanceStatusChange env d3 w)))
   \<and> along (same_on AwsAccountName) (table w)
     (table (snd (handleStackSetInstanceStatusChange env d3 w)))
   \<and> along (same_on AwsAccountId) (table w) (table (snd (handleProvisionProduct env d1 w)))
   \<and> along (same_on AwsAccountName) (table w) (table (snd (handleCreateManagedAccount env d2 w)))
   \<and> ((\<forall>p e n raw w1.
          handleProvisionProduct_extract d1 w = (Inr (Some (p, e, n, raw)), w1) \<longrightarrow> truthy (Some n))
      \<longrightarrow> along (stays_nonempty AwsAccountName) (table w)
            (table (snd (handleProvisionProduct env d1 w))))
   \<and> ((\<forall>state aid name.
          handleCreateManagedAccount_extract d2 = Inr (state, aid, name) \<longrightarrow> truthy (Some aid))
      \<longrightarrow> along (stays_nonempty AwsAccountId) (table w)
            (table (snd (handleCreateManagedAccount env d2 w))))"
  using stackset_keeps_id_name [of w env d3] provision_keeps_id [of w env d1]
    account_keeps_name [of w env d2] provision_keeps_name [of d1 w env]
    account_keeps_id [of d2 w env]
  by blast

theorem account_id_and_name_kept_witness:
  "along (same_on AwsAccountId) (table ready_world)
     (table (snd (handleStackSetInstanceStatusChange (calm ''t4'')
        (detail (stackset_event stack_111 ''FAILED'')) ready_world)))
   \<and> along (same_on AwsAccountName) (table ready_world)
     (table (snd (handleStackSetInstanceStatusChange (calm ''t4'')
        (detail (stackset_event stack_111 ''FAILED'')) ready_world)))
   \<and> along (same_on AwsAccountId) (table ready_world)
     (table (snd (handleProvisionProduct (calm ''t4'')
        (detail (provision_event ''t1'' ''Dev'' [tag ''AccountName'' ''n2''] ''SUCCEEDED''))
        ready_world)))
   \<and> along (same_on AwsAccountName) (table ready_world)
     (table (snd (handleCreateManagedAccount (calm ''t4'')
        (detail (account_event [(''accountId'', JStr ''222''), (''accountName'', JStr ''n1'')]
                   ''SUCCEEDED''))
        ready_world)))
   \<and> along (stays_nonempty AwsAccountName) (table ready_world)
     (table (snd (handleProvisionProduct (calm ''t4'')
        (detail (provision_event ''t1'' ''Dev'' [tag ''AccountName'' ''n2''] ''SUCCEEDED''))
        ready_world)))
   \<and> along (stays_nonempty AwsAccountId) (table ready_world)
     (table (snd (handleCreateManagedAccount (calm ''t4'')
        (detail (account_event [(''accountId'', JStr ''222''), (''accountName'', JStr ''n1'')]
                   ''SUCCEEDED''))
        ready_world)))"
proof -
  let ?d1 = "detail (provision_event ''t1'' ''Dev'' [tag ''AccountName'' ''n2''] ''SUCCEEDED'')"
  let ?d2 = "detail (account_event [(''accountId'', JStr ''222''), (''accountName'', JStr ''n1'')]
                   ''SUCCEEDED'')"
  have h1: "\<forall>p e n raw w1.
      handleProvisionProduct_extract ?d1 ready_world = (Inr (Some (p, e, n, raw)), w1)
      \<longrightarrow> truthy (Some n)"
    by (simp add: extract_provision_event or_default_def)
  have h2: "\<forall>state aid name.
      handleCreateManagedAccount_extract ?d2 = Inr (state, aid, name) \<longrightarrow> truthy (Some aid)"
    by (simp add: extract_account_event)
  show ?thesis
    using account_id_and_name_kept [of ready_world "calm ''t4''"
        "detail (stackset_event stack_111 ''FAILED'')" ?d1 ?d2] h1 h2
    by blast
qed

text \<open>
  Against C5 as the specification states it:
  a ProvisionProduct event without the \<^verbatim>\<open>AccountName\<close> parameter writes the empty string
  over the account name \<^verbatim>\<open>n1\<close>, and a CreateManagedAccount event without an account id
  writes the empty string over the account id \<^verbatim>\<open>111\<close>.
\<close>

theorem account_id_and_name_cleared_counterexample:
  "map AwsAccountName (table ready_world) = [Some (JStr ''n1'')]
   \<and> map AwsAccountName (table (snd (handler_provision_product (calm ''t4'')
        (provision_event ''t1'' ''Dev'' [] ''CREATED'') ready_world))) = [Some (JStr [])]
   \<and> map AwsAccountId (table ready_world) = [Some (JStr ''111'')]
   \<and> map AwsAccountId (table (snd (handler_create_account (calm ''t4'')
        (account_event [(''accountName'', JStr ''n1'')] ''FAILED'') ready_world))) =
       [Some (JStr [])]"
  by (simp add: all_defs)

section \<open>Exceptions and the handlers\<close>

text \<open>
  C10, as amended. On an event whose \<^verbatim>\<open>detail\<close> is an object and whose event name
  converts to a string (as a string, a missing name, \<^verbatim>\<open>null\<close> or a boolean do), the
  handlers of ProvisionProduct and of CreateManagedAccount resolve; the handler of StackSet
  status changes resolves on every event. Whatever the payload, the table, the directory
  and the services do, an exception thrown while the event is processed (by the parsing,
  by a table command, by the directory lookup) is caught inside the handling function and
  reported on the error console.
\<close>

theorem handlers_resolve:
  assumes "detail e1 = Some (JObj ps1)"
      and "template (map_of ps1 ''eventName'') = Inr name1"
      and "detail e2 = Some (JObj ps2)"
      and "template (map_of ps2 ''eventName'') = Inr name2"
  shows "fst (handler_provision_product env e1 w) = Inr ()
       \<and> fst (handler_create_account env e2 w) = Inr ()
       \<and> fst (handler_stackset_status env e3 w) = Inr ()
       \<and> (\<forall>error w1. handleProvisionProduct_body env (detail e1) w = (Inl error, w1) \<longrightarrow>
             handleProvisionProduct env (detail e1) w =
               (Inr (), console_error ''Error handling ProvisionProduct event:'' w1))
       \<and> (\<forall>error w1. handleCreateManagedAccount_body env (detail e2) w = (Inl error, w1) \<longrightarrow>
             handleCreateManagedAccount env (detail e2) w =
               (Inr (), console_error ''Error handling CreateManagedAccount event:'' w1))
       \<and> (\<forall>error w1. handleStackSetInstanceStatusChange_body env (detail e3) w = (Inl error, w1) \<longrightarrow>
             handleStackSetInstanceStatusChange env (detail e3) w =
               (Inr (), console_error ''Error handling StackSet instance status change:'' w1))"
  using assms
  by (simp add: handler_provision_product_def handler_create_account_def
      handler_stackset_status_def handleProvisionProduct_def handleCreateManagedAccount_def
      handleStackSetInstanceStatusChange_def fst_try_catch try_catch_thrown template_def Let_def)

theorem handlers_resolve_witness:
  "handler_provision_product (calm ''t4'') bad_tags_event ready_world =
     (Inr (), ready_world\<lparr>trace :=
        [ConsoleLog ''Event received:'',
         ConsoleLog ''Service Catalog: Product provisioning started'',
         ConsoleLog ''Tags found:'',
         ConsoleError ''Error handling ProvisionProduct event:'']\<rparr>)
   \<and> handler_create_account (stormy ''t4'')
       (account_event [(''accountId'', JStr ''111''), (''accountName'', JStr ''n1'')] ''SUCCEEDED'')
       ready_world =
     (Inr (), ready_world\<lparr>trace :=
        [ConsoleLog ''Event received:'',
         ConsoleLog ''Control Tower: Account creation completed'',
         DynamoSend (ScanCommand (JStr ''n1'')),
         ConsoleError ''Error handling CreateManagedAccount event:'']\<rparr>)
   \<and> handler_stackset_status (calm ''t4'') (stackset_event stack_222 ''SUCCEEDED'') ready_world =
     (Inr (), ready_world\<lparr>trace :=
        [ConsoleLog ''Event received:'',
         ConsoleLog ''CloudFormation: StackSet instance status change'',
         OrganizationsSend ''222'',
         ConsoleError ''Error handling StackSet instance status change:'']\<rparr>)"
proof -
  let ?e2 = "account_event [(''accountId'', JStr ''111''), (''accountName'', JStr ''n1'')] ''SUCCEEDED''"
  let ?e3 = "stackset_event stack_222 ''SUCCEEDED''"
  have h1: "detail bad_tags_event = Some (JObj
        [(''eventName'', JStr ''ProvisionProduct''),
         (''requestParameters'', JObj [(''tags'', JStr ''ps:accountId=t1'')])])"
    by (simp add: bad_tags_event_def)
  have h2: "detail ?e2 = Some (JObj
        [(''eventName'', JStr ''CreateManagedAccount''),
         (''serviceEventDetails'', JObj
            [(''createManagedAccountStatus'', JObj
               [(''state'', JStr ''SUCCEEDED''),
                (''account'', JObj [(''accountId'', JStr ''111''), (''accountName'', JStr ''n1'')])])])])"
    by (simp add: account_event_def)
  have h3: "detail ?e3 = Some (JObj
        [(''stack-id'', JStr stack_222),
         (''status-details'', JObj [(''detailed-status'', JStr ''SUCCEEDED'')])])"
    by (simp add: stackset_event_def)
  have n1: "template (map_of
        [(''eventName'', JStr ''ProvisionProduct''),
         (''requestParameters'', JObj [(''tags'', JStr ''ps:accountId=t1'')])] ''eventName'') =
      Inr ''ProvisionProduct''"
    by (simp add: template_def)
  have n2: "template (map_of
        [(''eventName'', JStr ''CreateManagedAccount''),
         (''serviceEventDetails'', JObj
            [(''createManagedAccountStatus'', JObj
               [(''state'', JStr ''SUCCEEDED''),
                (''account'', JObj [(''accountId'', JStr ''111''), (''accountName'', JStr ''n1'')])])])]
        ''eventName'') = Inr ''CreateManagedAccount''"
    by (simp add: template_def)
  have s1: "source bad_tags_event = ''aws.servicecatalog''"
    by (simp add: bad_tags_event_def)
  have s2: "source ?e2 = ''aws.controltower''"
    by (simp add: account_event_def)
  have s3: "source ?e3 = ''aws.cloudformation''
      \<and> detail_type ?e3 = ''CloudFormation StackSet StackInstance Status Change''"
    by (simp add: stackset_event_def)
  note r1 = handlers_resolve [OF h1 n1 h2 n2, of "calm ''t4''"
      "console_log ''Service Catalog: Product provisioning started''
        (console_log ''Event received:'' ready_world)" ?e3]
  note r2 = handlers_resolve [OF h1 n1 h2 n2, of "stormy ''t4''"
      "console_log ''Control Tower: Account creation completed''
        (console_log ''Event received:'' ready_world)" ?e3]
  note r3 = handlers_resolve [OF h1 n1 h2 n2, of "calm ''t4''"
      "console_log ''CloudFormation: StackSet instance status change''
        (console_log ''Event received:'' ready_world)" ?e3]
  have a: "handler_provision_product (calm ''t4'') bad_tags_event ready_world =
     (Inr (), ready_world\<lparr>trace :=
        [ConsoleLog ''Event received:'',
         ConsoleLog ''Service Catalog: Product provisioning started'',
         ConsoleLog ''Tags found:'',
         ConsoleError ''Error handling ProvisionProduct event:'']\<rparr>)"
    using r1 thrown_bad_tags [of "calm ''t4''"]
    by (simp add: handler_provision_product_def h1 s1 Let_def console_log_def console_error_def
        ready_world_def)
  have b: "handler_create_account (stormy ''t4'') ?e2 ready_world =
     (Inr (), ready_world\<lparr>trace :=
        [ConsoleLog ''Event received:'',
         ConsoleLog ''Control Tower: Account creation completed'',
         DynamoSend (ScanCommand (JStr ''n1'')),
         ConsoleError ''Error handling CreateManagedAccount event:'']\<rparr>)"
    using r2 thrown_scan [of "''t4''"]
    by (simp add: handler_create_account_def h2 s2 Let_def console_log_def console_error_def
        ready_world_def)
  have c: "handler_stackset_status (calm ''t4'') ?e3 ready_world =
     (Inr (), ready_world\<lparr>trace :=
        [ConsoleLog ''Event received:'',
         ConsoleLog ''CloudFormation: StackSet instance status change'',
         OrganizationsSend ''222'',
         ConsoleError ''Error handling StackSet instance status change:'']\<rparr>)"
    using r3 thrown_directory [of "''t4''"]
    by (simp add: handler_stackset_status_def s3 Let_def console_log_def console_error_def
        ready_world_def)
  show ?thesis
    using a b c by simp
qed

text \<open>
  Against C10 as stated: the detail \<^verbatim>\<open>{"eventName": {"toString": "x"}}\<close> is an object,
  the event is not the one the handler expects, and the template literal of the else
  branch, outside every \<^verbatim>\<open>try\<close>, cannot convert the event name to a string: the promise
  of the ProvisionProduct handler rejects with a TypeError, and so does the promise of the
  CreateManagedAccount handler.
\<close>

theorem handlers_reject_counterexample:
  "detail (unprintable_event ''aws.servicecatalog'') =
     Some (JObj [(''eventName'', JObj [(''toString'', JStr ''x'')])])
   \<and> handler_provision_product (calm ''t4'') (unprintable_event ''aws.servicecatalog'') ready_world =
       (Inl TypeError, ready_world\<lparr>trace := [ConsoleLog ''Event received:'']\<rparr>)
   \<and> handler_create_account (calm ''t4'') (unprintable_event ''aws.controltower'') ready_world =
       (Inl TypeError, ready_world\<lparr>trace := [ConsoleLog ''Event received:'']\<rparr>)"
  by (simp add: unprintable_event_def handler_provision_product_def handler_create_account_def
      template_def console_log_def ready_world_def Let_def)

lemma rejects_without_detail:
  "fst (handler_provision_product env \<lparr>source = s, detail_type = t, detail = None\<rparr> w) = Inl TypeError
   \<and> fst (handler_create_account env \<lparr>source = s, detail_type = t, detail = None\<rparr> w) = Inl TypeError
   \<and> fst (handler_provision_product env \<lparr>source = s, detail_type = t, detail = Some JNull\<rparr> w) = Inl TypeError
   \<and> fst (handler_create_account env \<lparr>source = s, detail_type = t, detail = Some JNull\<rparr> w) = Inl TypeError"
  by (simp add: handler_provision_product_def handler_create_account_def Let_def)

end
